theory Spec2Isabelle
  imports Main
begin

section \<open>Python values, datetimes and exceptions\<close>

text \<open>
  A loan is a Python dict from field names to values. The values that the circulation
  code handles are \<open>None\<close>, strings (identifiers, state names, ISO-8601 dates) and
  \<open>datetime\<close> objects. A \<open>datetime\<close> is its position on the time line in
  microseconds (UTC for an aware value, the wall clock for a naive one) and its UTC offset
  in minutes (\<open>None\<close> for a naive value).
\<close>

record datetime =
  instant :: int
  utcoffset :: "int option"

datatype pyval = VNone | VStr string | VDate datetime

type_synonym loan = "string \<rightharpoonup> pyval"

text \<open>
  Exceptions are values: the classes of \<open>errors.py\<close> that the sources import,
  \<open>ConstructionError\<close> for the construction error of the specification, and the
  built-in exceptions that the modelled code can raise.
\<close>

datatype error =
    InvalidState
  | NoValidTransitionAvailable
  | TransitionValidationFailed
  | TransitionConditionsFailed
  | TransitionConstraintsViolation
  | TransitionPoliciesViolation
  | ConstructionError
  | AssertionError
  | AttributeError
  | KeyError
  | NameError
  | TypeError
  | ValueError
  | OverflowError

text \<open>
  Modelled from the spec: \<open>errors.py\<close> is not among the sources, so the class
  hierarchy behind \<open>except TransitionValidationFailed\<close> in \<open>ext.py\<close> is taken
  from the error taxonomy of the specification: \<open>TransitionConditionsFailed\<close> is the
  soft rejection that the engine catches; \<open>TransitionConstraintsViolation\<close> and the
  policy violations are hard and are not caught. Built-in exceptions are never instances
  of a circulation class.
\<close>

fun isinstance_TransitionValidationFailed :: "error \<Rightarrow> bool" where
  "isinstance_TransitionValidationFailed TransitionValidationFailed = True"
| "isinstance_TransitionValidationFailed TransitionConditionsFailed = True"
| "isinstance_TransitionValidationFailed _ = False"

text \<open>Python truthiness (\<open>not x\<close>), \<open>dict.get\<close> and \<open>==\<close> on the values above.\<close>

fun truthy :: "pyval \<Rightarrow> bool" where
  "truthy VNone = False"
| "truthy (VStr s) = (s \<noteq> [])"
| "truthy (VDate d) = True"

definition get :: "loan \<Rightarrow> string \<Rightarrow> pyval" where
  "get loan k = (case loan k of None \<Rightarrow> VNone | Some v \<Rightarrow> v)"

definition setdefault :: "loan \<Rightarrow> string \<Rightarrow> pyval \<Rightarrow> loan" where
  "setdefault loan k v = (case loan k of None \<Rightarrow> loan(k \<mapsto> v) | Some _ \<Rightarrow> loan)"

fun py_eq :: "pyval \<Rightarrow> pyval \<Rightarrow> bool" where
  "py_eq VNone VNone = True"
| "py_eq (VStr a) (VStr b) = (a = b)"
| "py_eq (VDate a) (VDate b) =
     ((utcoffset a = None) = (utcoffset b = None) \<and> instant a = instant b)"
| "py_eq _ _ = False"

subsection \<open>The datetime operations the code uses\<close>

text \<open>
  \<open>datetime.min\<close> is 0001-01-01T00:00:00 and \<open>datetime.max\<close> is
  9999-12-31T23:59:59.999999, both on the wall clock, here in microseconds from the epoch.
  A \<open>timedelta\<close> is a number of microseconds; \<open>timedelta(days=n)\<close> raises
  \<open>OverflowError\<close> beyond 999999999 days, and so does an addition that leaves the
  range of \<open>datetime\<close>. Ordering and subtraction of a naive and an aware value raise
  \<open>TypeError\<close>.
\<close>

definition datetime_min :: int where
  "datetime_min = - 62135596800000000"

definition datetime_max :: int where
  "datetime_max = 253402300799999999"

definition wall_clock :: "datetime \<Rightarrow> int" where
  "wall_clock d = instant d + (case utcoffset d of None \<Rightarrow> 0 | Some m \<Rightarrow> m * 60000000)"

definition timedelta_days :: "int \<Rightarrow> error + int" where
  "timedelta_days n =
     (if n < - 999999999 \<or> 999999999 < n then Inl OverflowError
      else Inr (n * 86400000000))"

definition datetime_add :: "datetime \<Rightarrow> int \<Rightarrow> error + datetime" where
  "datetime_add d td =
     (if wall_clock d + td < datetime_min \<or> datetime_max < wall_clock d + td
      then Inl OverflowError
      else Inr (d\<lparr>instant := instant d + td\<rparr>))"

definition datetime_lt :: "datetime \<Rightarrow> datetime \<Rightarrow> error + bool" where
  "datetime_lt a b =
     (if (utcoffset a = None) = (utcoffset b = None) then Inr (instant a < instant b)
      else Inl TypeError)"

definition datetime_sub :: "datetime \<Rightarrow> datetime \<Rightarrow> error + int" where
  "datetime_sub a b =
     (if (utcoffset a = None) = (utcoffset b = None) then Inr (instant a - instant b)
      else Inl TypeError)"

text \<open>\<open>x + timedelta(days=n)\<close> and \<open>x < y\<close> on arbitrary values: the right operand
  of the sum is built first; anything but a \<open>datetime\<close> on the left is a
  \<open>TypeError\<close>.\<close>

definition py_add_days :: "pyval \<Rightarrow> int \<Rightarrow> error + pyval" where
  "py_add_days x n =
     (case timedelta_days n of
        Inl e \<Rightarrow> Inl e
      | Inr td \<Rightarrow>
          (case x of
             VDate d \<Rightarrow> (case datetime_add d td of Inl e \<Rightarrow> Inl e | Inr d' \<Rightarrow> Inr (VDate d'))
           | _ \<Rightarrow> Inl TypeError))"

definition py_lt :: "pyval \<Rightarrow> pyval \<Rightarrow> error + bool" where
  "py_lt x y =
     (case (x, y) of
        (VDate a, VDate b) \<Rightarrow> datetime_lt a b
      | (VStr a, VStr b) \<Rightarrow> Inr (lexordp (\<lambda>c d. of_char c < (of_char d :: nat)) a b)
      | _ \<Rightarrow> Inl TypeError)"

section \<open>Configuration: policies and collaborators\<close>

text \<open>
  The functions that the code reads from \<open>current_app.config\<close> at call time
  (\<open>CIRCULATION_ITEM_LOCATION_RETRIEVER\<close> and, under
  \<open>CIRCULATION_POLICIES['checkout']\<close>, \<open>duration_default\<close> and \<open>validate\<close>)
  together with the two library functions on dates: \<open>ciso8601.parse_datetime\<close>, which
  raises \<open>ValueError\<close> on a string that is not a date, and \<open>datetime.isoformat\<close>.
\<close>

record env =
  CIRCULATION_ITEM_LOCATION_RETRIEVER :: "pyval \<Rightarrow> pyval"
  duration_default :: "loan \<Rightarrow> int"
  validate :: "loan \<Rightarrow> pyval \<Rightarrow> pyval \<Rightarrow> error + bool"
  parse_datetime :: "string \<Rightarrow> datetime option"
  isoformat :: "datetime \<Rightarrow> string"

text \<open>\<open>utils.py\<close>: the default policies.\<close>

definition item_location_retriever :: "pyval \<Rightarrow> pyval" where
  "item_location_retriever item_pid = VNone"

definition get_default_loan_duration :: "loan \<Rightarrow> int" where
  "get_default_loan_duration loan = 30"

definition is_loan_valid :: "loan \<Rightarrow> pyval \<Rightarrow> pyval \<Rightarrow> error + bool" where
  "is_loan_valid loan start_date end_date =
     (case (end_date, start_date) of
        (VDate e, VDate s) \<Rightarrow>
          (case datetime_sub e s of
             Inl err \<Rightarrow> Inl err
           | Inr loan_duration \<Rightarrow>
               (if loan_duration > 60 * 86400000000 then Inl TransitionPoliciesViolation
                else Inr True))
      | _ \<Rightarrow> Inl TypeError)"

definition parse_date :: "env \<Rightarrow> pyval \<Rightarrow> error + pyval" where
  "parse_date cfg date_datetime_or_str =
     (if \<not> truthy date_datetime_or_str then Inr date_datetime_or_str
      else (case date_datetime_or_str of
              VDate d \<Rightarrow> Inr (VDate d)
            | VStr s \<Rightarrow>
                (case parse_datetime cfg s of
                   None \<Rightarrow> Inl ValueError
                 | Some d \<Rightarrow> Inr (VDate d))
            | VNone \<Rightarrow> Inr VNone))"

section \<open>The transitions\<close>

text \<open>
  Modelled from the spec: \<open>trigger(self, loan, **kwargs)\<close> hands its keyword
  arguments to \<open>Transition.execute\<close>, which is not among the sources. The
  specification gives the arguments of the entry point: \<open>trigger(loan, trigger_name?,
  transaction_date, transaction_location_pid?, pickup_location_pid?, start_date?,
  end_date?)\<close>; the tests pass the trigger name under the key \<open>trigger\<close>. An absent
  optional argument is \<open>None\<close>.
\<close>

record kwargs =
  kw_trigger :: "string option"
  kw_transaction_date :: pyval
  kw_transaction_location_pid :: "pyval option"
  kw_pickup_location_pid :: "pyval option"
  kw_start_date :: "pyval option"
  kw_end_date :: "pyval option"

text \<open>
  The classes of \<open>transitions.py\<close>, with the base class \<open>Transition\<close>.
\<close>

datatype transition_class =
    Transition
  | CreatedToPending
  | CreatedToItemOnLoan
  | PendingToItemAtDesk
  | PendingToItemInTransitPickup
  | ItemAtDeskToItemOnLoan
  | ItemOnLoanToItemInTransitHouse
  | ItemOnLoanToItemReturned

text \<open>
  Modelled from the spec: the attributes of a \<open>Transition\<close> instance (the class is in
  \<open>transitions/base.py\<close>, not among the sources) are its source state, its
  destination state and its optional trigger name; \<open>None\<close> is the automatic
  transition of a descriptor without \<open>trigger\<close>. The class of the instance decides
  the \<open>before\<close> that runs.
\<close>

record transition =
  cls :: transition_class
  src :: string
  dest :: string
  trigger :: "string option"

subsection \<open>\<open>transitions.py\<close>: date validation\<close>

definition ensure_valid_loan :: "env \<Rightarrow> loan \<Rightarrow> error option \<times> loan" where
  "ensure_valid_loan cfg loan =
     (case loan ''transaction_date'' of
        None \<Rightarrow> (Some KeyError, loan)
      | Some transaction_date \<Rightarrow>
          (let loan1 = setdefault loan ''start_date'' transaction_date in
           case parse_date cfg (get loan1 ''start_date'') of
             Inl e \<Rightarrow> (Some e, loan1)
           | Inr start_date \<Rightarrow>
               (case parse_date cfg (get loan1 ''end_date'') of
                  Inl e \<Rightarrow> (Some e, loan1)
                | Inr end_date0 \<Rightarrow>
                    (case (if \<not> truthy end_date0
                           then py_add_days start_date (duration_default cfg loan1)
                           else Inr end_date0) of
                       Inl e \<Rightarrow> (Some e, loan1)
                     | Inr end_date \<Rightarrow>
                         (case py_lt end_date start_date of
                            Inl e \<Rightarrow> (Some e, loan1)
                          | Inr True \<Rightarrow>
                              (case loan1 ''end_date'' of
                                 None \<Rightarrow> (Some KeyError, loan1)
                               | Some _ \<Rightarrow> (Some TransitionConstraintsViolation, loan1))
                          | Inr False \<Rightarrow>
                              (case validate cfg loan1 start_date end_date of
                                 Inl e \<Rightarrow> (Some e, loan1)
                               | Inr False \<Rightarrow> (Some AssertionError, loan1)
                               | Inr True \<Rightarrow>
                                   (case (start_date, end_date) of
                                      (VDate s, VDate e) \<Rightarrow>
                                        (None, loan1(''start_date'' \<mapsto> VStr (isoformat cfg s),
                                                     ''end_date'' \<mapsto> VStr (isoformat cfg e)))
                                    | _ \<Rightarrow> (Some AttributeError, loan1))))))))"

subsection \<open>The base class\<close>

text \<open>
  \<open>transitions/base.py\<close> (the class \<open>Transition\<close> with \<open>before\<close>,
  \<open>execute\<close> and \<open>after\<close>) and \<open>transitions/conditions.py\<close>
  (\<open>is_same_location\<close>) are not among the sources; the subclasses of
  \<open>transitions.py\<close> call them.
\<close>

text \<open>
  Modelled from the spec: storing the context of the call in the loan
  (\<open>Transition.before\<close>, absent). The subclasses read \<open>transaction_date\<close>,
  \<open>transaction_location_pid\<close>, \<open>pickup_location_pid\<close>, \<open>start_date\<close> and
  \<open>end_date\<close> from the loan, and the callers pass them to \<open>trigger\<close>: each
  argument that the call gives is written to the loan under its name.
\<close>

definition put_opt :: "loan \<Rightarrow> string \<Rightarrow> pyval option \<Rightarrow> loan" where
  "put_opt loan k v = (case v of None \<Rightarrow> loan | Some x \<Rightarrow> loan(k \<mapsto> x))"

text \<open>
  Modelled from the spec: the context stored by \<open>Transition.before\<close> (absent), one
  \<open>put_opt\<close> for each optional argument after the required \<open>transaction_date\<close>.
\<close>

definition update_loan :: "loan \<Rightarrow> kwargs \<Rightarrow> loan" where
  "update_loan loan kw =
     put_opt (put_opt (put_opt (put_opt
       (loan(''transaction_date'' \<mapsto> kw_transaction_date kw))
       ''transaction_location_pid'' (kw_transaction_location_pid kw))
       ''pickup_location_pid'' (kw_pickup_location_pid kw))
       ''start_date'' (kw_start_date kw))
       ''end_date'' (kw_end_date kw)"

text \<open>
  Modelled from the spec: \<open>Transition.before\<close> (absent). A candidate is eligible only
  when the trigger name of the call equals its own, a call without trigger name selecting
  the automatic candidates; an ineligible candidate is a soft rejection, which leaves the
  loan as it is. An eligible candidate stores the context of the call in the loan.
\<close>

definition Transition_before :: "transition \<Rightarrow> loan \<Rightarrow> kwargs \<Rightarrow> error option \<times> loan" where
  "Transition_before t loan kw =
     (if kw_trigger kw \<noteq> trigger t then (Some TransitionConditionsFailed, loan)
      else (None, update_loan loan kw))"

text \<open>
  Modelled from the spec: \<open>Transition.after\<close> (absent), the finalize step. The
  subclasses only call it; persisting the loan is outside the engine, and the fields of
  the loan stay as they are.
\<close>

definition Transition_after :: "transition \<Rightarrow> loan \<Rightarrow> loan" where
  "Transition_after t loan = loan"

text \<open>
  Modelled from the spec: \<open>is_same_location\<close> (\<open>conditions.py\<close>, absent). The
  item's current location, from the location retriever, equals the given location.
\<close>

definition is_same_location :: "env \<Rightarrow> pyval \<Rightarrow> pyval \<Rightarrow> bool" where
  "is_same_location cfg item_pid location_pid =
     py_eq (CIRCULATION_ITEM_LOCATION_RETRIEVER cfg item_pid) location_pid"

subsection \<open>\<open>transitions.py\<close>: the \<open>before\<close> of each class\<close>

text \<open>
  Every \<open>before\<close> first calls the base class. \<open>loan['k']\<close> raises \<open>KeyError\<close>
  on a missing key, and the arguments of a call are evaluated from left to right.
  \<open>ItemAtDeskToItemOnLoan.before\<close> ends with a call of
  \<open>_ensure_valid_loan_duration\<close>, a name that the module neither defines nor imports:
  reaching it raises \<open>NameError\<close>.
\<close>

definition CreatedToPending_before ::
  "env \<Rightarrow> transition \<Rightarrow> loan \<Rightarrow> kwargs \<Rightarrow> error option \<times> loan" where
  "CreatedToPending_before cfg t loan kw =
     (case Transition_before t loan kw of
        (Some e, loan1) \<Rightarrow> (Some e, loan1)
      | (None, loan1) \<Rightarrow>
          (if \<not> truthy (get loan1 ''pickup_location_pid'')
           then (case loan1 ''item_pid'' of
                   None \<Rightarrow> (Some KeyError, loan1)
                 | Some item_pid \<Rightarrow>
                     (None, loan1(''pickup_location_pid'' \<mapsto>
                              CIRCULATION_ITEM_LOCATION_RETRIEVER cfg item_pid)))
           else (None, loan1)))"

definition CreatedToItemOnLoan_before ::
  "env \<Rightarrow> transition \<Rightarrow> loan \<Rightarrow> kwargs \<Rightarrow> error option \<times> loan" where
  "CreatedToItemOnLoan_before cfg t loan kw =
     (case Transition_before t loan kw of
        (Some e, loan1) \<Rightarrow> (Some e, loan1)
      | (None, loan1) \<Rightarrow> ensure_valid_loan cfg loan1)"

definition PendingToItemAtDesk_before ::
  "env \<Rightarrow> transition \<Rightarrow> loan \<Rightarrow> kwargs \<Rightarrow> error option \<times> loan" where
  "PendingToItemAtDesk_before cfg t loan kw =
     (case Transition_before t loan kw of
        (Some e, loan1) \<Rightarrow> (Some e, loan1)
      | (None, loan1) \<Rightarrow>
          (case loan1 ''item_pid'' of
             None \<Rightarrow> (Some KeyError, loan1)
           | Some item_pid \<Rightarrow>
               (case loan1 ''pickup_location_pid'' of
                  None \<Rightarrow> (Some KeyError, loan1)
                | Some pickup_location_pid \<Rightarrow>
                    (if \<not> is_same_location cfg item_pid pickup_location_pid
                     then (Some TransitionConditionsFailed, loan1)
                     else (None, loan1)))))"

definition PendingToItemInTransitPickup_before ::
  "env \<Rightarrow> transition \<Rightarrow> loan \<Rightarrow> kwargs \<Rightarrow> error option \<times> loan" where
  "PendingToItemInTransitPickup_before cfg t loan kw =
     (case Transition_before t loan kw of
        (Some e, loan1) \<Rightarrow> (Some e, loan1)
      | (None, loan1) \<Rightarrow>
          (case loan1 ''item_pid'' of
             None \<Rightarrow> (Some KeyError, loan1)
           | Some item_pid \<Rightarrow>
               (case loan1 ''pickup_location_pid'' of
                  None \<Rightarrow> (Some KeyError, loan1)
                | Some pickup_location_pid \<Rightarrow>
                    (if is_same_location cfg item_pid pickup_location_pid
                     then (Some TransitionConditionsFailed, loan1)
                     else (None, loan1)))))"

definition ItemAtDeskToItemOnLoan_before ::
  "env \<Rightarrow> transition \<Rightarrow> loan \<Rightarrow> kwargs \<Rightarrow> error option \<times> loan" where
  "ItemAtDeskToItemOnLoan_before cfg t loan kw =
     (case Transition_before t loan kw of
        (Some e, loan1) \<Rightarrow> (Some e, loan1)
      | (None, loan1) \<Rightarrow>
          (case (if truthy (get loan1 ''start_date'')
                 then (case parse_date cfg (get loan1 ''start_date'') of
                         Inl e \<Rightarrow> Inl e
                       | Inr d \<Rightarrow> Inr (loan1(''start_date'' \<mapsto> d)))
                 else Inr loan1) of
             Inl e \<Rightarrow> (Some e, loan1)
           | Inr loan2 \<Rightarrow>
               (case (if truthy (get loan2 ''end_date'')
                      then (case parse_date cfg (get loan2 ''end_date'') of
                              Inl e \<Rightarrow> Inl e
                            | Inr d \<Rightarrow> Inr (loan2(''end_date'' \<mapsto> d)))
                      else Inr loan2) of
                  Inl e \<Rightarrow> (Some e, loan2)
                | Inr loan3 \<Rightarrow> (Some NameError, loan3))))"

definition ItemOnLoanToItemInTransitHouse_before ::
  "env \<Rightarrow> transition \<Rightarrow> loan \<Rightarrow> kwargs \<Rightarrow> error option \<times> loan" where
  "ItemOnLoanToItemInTransitHouse_before cfg t loan kw =
     (case Transition_before t loan kw of
        (Some e, loan1) \<Rightarrow> (Some e, loan1)
      | (None, loan1) \<Rightarrow>
          (case loan1 ''item_pid'' of
             None \<Rightarrow> (Some KeyError, loan1)
           | Some item_pid \<Rightarrow>
               (case loan1 ''transaction_location_pid'' of
                  None \<Rightarrow> (Some KeyError, loan1)
                | Some transaction_location_pid \<Rightarrow>
                    (if is_same_location cfg item_pid transaction_location_pid
                     then (Some TransitionConditionsFailed, loan1)
                     else (case loan1 ''transaction_date'' of
                             None \<Rightarrow> (Some KeyError, loan1)
                           | Some transaction_date \<Rightarrow>
                               (None, loan1(''end_date'' \<mapsto> transaction_date)))))))"

definition ItemOnLoanToItemReturned_before ::
  "env \<Rightarrow> transition \<Rightarrow> loan \<Rightarrow> kwargs \<Rightarrow> error option \<times> loan" where
  "ItemOnLoanToItemReturned_before cfg t loan kw =
     (case Transition_before t loan kw of
        (Some e, loan1) \<Rightarrow> (Some e, loan1)
      | (None, loan1) \<Rightarrow>
          (case loan1 ''item_pid'' of
             None \<Rightarrow> (Some KeyError, loan1)
           | Some item_pid \<Rightarrow>
               (case loan1 ''transaction_location_pid'' of
                  None \<Rightarrow> (Some KeyError, loan1)
                | Some transaction_location_pid \<Rightarrow>
                    (if \<not> is_same_location cfg item_pid transaction_location_pid
                     then (Some TransitionConditionsFailed, loan1)
                     else (case loan1 ''transaction_date'' of
                             None \<Rightarrow> (Some KeyError, loan1)
                           | Some transaction_date \<Rightarrow>
                               (None, loan1(''end_date'' \<mapsto> transaction_date)))))))"

text \<open>Method dispatch on the class of the instance.\<close>

definition before :: "env \<Rightarrow> transition \<Rightarrow> loan \<Rightarrow> kwargs \<Rightarrow> error option \<times> loan" where
  "before cfg t loan kw =
     (case cls t of
        Transition \<Rightarrow> Transition_before t loan kw
      | CreatedToPending \<Rightarrow> CreatedToPending_before cfg t loan kw
      | CreatedToItemOnLoan \<Rightarrow> CreatedToItemOnLoan_before cfg t loan kw
      | PendingToItemAtDesk \<Rightarrow> PendingToItemAtDesk_before cfg t loan kw
      | PendingToItemInTransitPickup \<Rightarrow> PendingToItemInTransitPickup_before cfg t loan kw
      | ItemAtDeskToItemOnLoan \<Rightarrow> ItemAtDeskToItemOnLoan_before cfg t loan kw
      | ItemOnLoanToItemInTransitHouse \<Rightarrow> ItemOnLoanToItemInTransitHouse_before cfg t loan kw
      | ItemOnLoanToItemReturned \<Rightarrow> ItemOnLoanToItemReturned_before cfg t loan kw)"

text \<open>
  Modelled from the spec: \<open>Transition.execute\<close> (absent). It runs the guard
  \<open>before\<close>; when the guard succeeds it assigns the destination state to the loan
  and runs the finalize step \<open>after\<close>. When the guard raises, the exception goes on
  to the caller and the state is not assigned.
\<close>

definition execute :: "env \<Rightarrow> transition \<Rightarrow> loan \<Rightarrow> kwargs \<Rightarrow> error option \<times> loan" where
  "execute cfg t loan kw =
     (case before cfg t loan kw of
        (Some e, loan1) \<Rightarrow> (Some e, loan1)
      | (None, loan1) \<Rightarrow> (None, Transition_after t (loan1(''state'' \<mapsto> VStr (dest t)))))"

section \<open>\<open>ext.py\<close>: the engine\<close>

text \<open>
  \<open>trigger\<close> mutates the loan in place: what a candidate's \<open>before\<close> has written
  stays in the loan when the candidate raises. Every function therefore returns the loan
  as it is left, next to the exception raised (\<open>None\<close> when the call returns). The loop
  executes the candidates in order; it returns at the first that raises nothing, goes on
  after a \<open>TransitionValidationFailed\<close>, and lets any other exception through.
\<close>

fun try_transitions ::
  "('t \<Rightarrow> loan \<Rightarrow> 'k \<Rightarrow> error option \<times> loan) \<Rightarrow> 't list \<Rightarrow> loan \<Rightarrow> 'k \<Rightarrow> error option \<times> loan"
where
  "try_transitions ex [] loan kw = (Some NoValidTransitionAvailable, loan)"
| "try_transitions ex (t # ts) loan kw =
     (case ex t loan kw of
        (None, loan1) \<Rightarrow> (None, loan1)
      | (Some e, loan1) \<Rightarrow>
          (if isinstance_TransitionValidationFailed e then try_transitions ex ts loan1 kw
           else (Some e, loan1)))"

definition validate_current_state :: "(string \<rightharpoonup> transition list) \<Rightarrow> pyval \<Rightarrow> error option" where
  "validate_current_state transitions current_state =
     (case current_state of
        VStr s \<Rightarrow> (if s = [] \<or> transitions s = None then Some InvalidState else None)
      | _ \<Rightarrow> Some InvalidState)"

definition Circulation_trigger ::
  "env \<Rightarrow> (string \<rightharpoonup> transition list) \<Rightarrow> loan \<Rightarrow> kwargs \<Rightarrow> error option \<times> loan" where
  "Circulation_trigger cfg transitions loan kw =
     (let current_state = get loan ''state'' in
      case validate_current_state transitions current_state of
        Some e \<Rightarrow> (Some e, loan)
      | None \<Rightarrow>
          (case current_state of
             VStr s \<Rightarrow>
               (case transitions s of
                  Some ts \<Rightarrow> try_transitions (execute cfg) ts loan kw
                | None \<Rightarrow> (Some KeyError, loan))
           | _ \<Rightarrow> (Some KeyError, loan)))"

text \<open>
  The candidates of a list are all soft-rejected when each, run in order on the loan as
  the one before left it, raises \<open>TransitionConditionsFailed\<close>; the result is the loan
  as the last of them leaves it.
\<close>

fun soft_rejected ::
  "('t \<Rightarrow> loan \<Rightarrow> 'k \<Rightarrow> error option \<times> loan) \<Rightarrow> 't list \<Rightarrow> loan \<Rightarrow> 'k \<Rightarrow> loan option"
where
  "soft_rejected ex [] loan kw = Some loan"
| "soft_rejected ex (t # ts) loan kw =
     (case ex t loan kw of
        (Some TransitionConditionsFailed, loan1) \<Rightarrow> soft_rejected ex ts loan1 kw
      | _ \<Rightarrow> None)"

subsection \<open>Construction\<close>

text \<open>
  The transitions configuration is a dict from state names to lists of descriptors, and
  a descriptor is itself a dict, \<open>dict(dest=..., trigger=..., transition=...)\<close>, whose
  keys may be absent. Descriptors are mutable objects that the configuration refers to:
  they live in a heap, a list of descriptors addressed by position, and the configuration
  holds their addresses. An absent key is \<open>None\<close>.
\<close>

record descriptor =
  dest_key :: "string option"
  trigger_key :: "string option"
  transition_key :: "transition_class option"

type_synonym heap = "descriptor list"

type_synonym transitions_config = "(string \<times> nat list) list"

definition keys :: "descriptor \<Rightarrow> string list" where
  "keys d =
     (if dest_key d = None then [] else [''dest'']) @
     (if trigger_key d = None then [] else [''trigger'']) @
     (if transition_key d = None then [] else [''transition''])"

text \<open>
  Modelled from the spec: the eight states of a loan, against which
  \<open>Transition.__init__\<close> (absent) checks the source and the destination.
\<close>

definition STATES :: "string list" where
  "STATES = [''CREATED'', ''PENDING'', ''ITEM_AT_DESK'', ''ITEM_IN_TRANSIT_FOR_PICKUP'',
             ''ITEM_ON_LOAN'', ''ITEM_IN_TRANSIT_TO_HOUSE'', ''ITEM_RETURNED'', ''CANCELLED'']"

text \<open>
  Modelled from the spec: \<open>Transition.__init__\<close> is in \<open>transitions/base.py\<close>,
  which is not among the sources. It receives the keys of the descriptor and \<open>src\<close>;
  \<open>dest\<close> is a required argument, and construction fails when the source or the
  destination is not one of the states of a loan.
\<close>

definition Transition_init :: "transition_class \<Rightarrow> descriptor \<Rightarrow> string \<Rightarrow> error + transition" where
  "Transition_init c t src_state =
     (case dest_key t of
        None \<Rightarrow> Inl TypeError
      | Some d \<Rightarrow>
          (if src_state \<in> set STATES \<and> d \<in> set STATES
           then Inr \<lparr>cls = c, src = src_state, dest = d, trigger = trigger_key t\<rparr>
           else Inl ConstructionError))"

text \<open>
  \<open>_Circulation.__init__\<close>: the inner loop pops \<open>transition\<close> from each descriptor
  (the descriptor in the heap loses the key) and builds the instance from what is left.
  An address outside the heap does not occur in a Python program; the model stops there
  with \<open>KeyError\<close>.
\<close>

fun init_transitions :: "heap \<Rightarrow> string \<Rightarrow> nat list \<Rightarrow> heap \<times> (error + transition list)" where
  "init_transitions h src_state [] = (h, Inr [])"
| "init_transitions h src_state (a # as) =
     (if length h \<le> a then (h, Inl KeyError)
      else
        (let t = h ! a;
             c = (case transition_key t of None \<Rightarrow> Transition | Some k \<Rightarrow> k);
             h1 = h[a := t\<lparr>transition_key := None\<rparr>]
         in case Transition_init c (h1 ! a) src_state of
              Inl e \<Rightarrow> (h1, Inl e)
            | Inr instance \<Rightarrow>
                (case init_transitions h1 src_state as of
                   (h2, Inl e) \<Rightarrow> (h2, Inl e)
                 | (h2, Inr instances) \<Rightarrow> (h2, Inr (instance # instances)))))"

fun init_items ::
  "heap \<Rightarrow> (string \<rightharpoonup> transition list) \<Rightarrow> transitions_config \<Rightarrow>
   heap \<times> (error + (string \<rightharpoonup> transition list))"
where
  "init_items h transitions [] = (h, Inr transitions)"
| "init_items h transitions ((src_state, ts) # rest) =
     (let old = (case transitions src_state of None \<Rightarrow> [] | Some xs \<Rightarrow> xs)
      in case init_transitions h src_state ts of
           (h1, Inl e) \<Rightarrow> (h1, Inl e)
         | (h1, Inr instances) \<Rightarrow>
             init_items h1 (transitions(src_state \<mapsto> old @ instances)) rest)"

definition Circulation_init ::
  "heap \<Rightarrow> transitions_config \<Rightarrow> heap \<times> (error + (string \<rightharpoonup> transition list))" where
  "Circulation_init h transitions_config = init_items h Map.empty transitions_config"

text \<open>
  \<open>copy.deepcopy\<close> of a configuration: every descriptor is copied to a fresh address at
  the end of the heap; the memo maps the addresses already copied to their copies, so a
  descriptor that occurs twice is copied once. The addresses of a configuration are in
  the heap (\<open>wf_config\<close> below).
\<close>

fun deepcopy_list ::
  "heap \<Rightarrow> (nat \<times> nat) list \<Rightarrow> nat list \<Rightarrow> heap \<times> (nat \<times> nat) list \<times> nat list" where
  "deepcopy_list h memo [] = (h, memo, [])"
| "deepcopy_list h memo (a # as) =
     (case map_of memo a of
        Some b \<Rightarrow>
          (case deepcopy_list h memo as of (h1, memo1, bs) \<Rightarrow> (h1, memo1, b # bs))
      | None \<Rightarrow>
          (case deepcopy_list (h @ [h ! a]) ((a, length h) # memo) as of
             (h1, memo1, bs) \<Rightarrow> (h1, memo1, length h # bs)))"

fun deepcopy_items ::
  "heap \<Rightarrow> (nat \<times> nat) list \<Rightarrow> transitions_config \<Rightarrow>
   heap \<times> (nat \<times> nat) list \<times> transitions_config" where
  "deepcopy_items h memo [] = (h, memo, [])"
| "deepcopy_items h memo ((k, ts) # rest) =
     (case deepcopy_list h memo ts of
        (h1, memo1, ts1) \<Rightarrow>
          (case deepcopy_items h1 memo1 rest of
             (h2, memo2, rest1) \<Rightarrow> (h2, memo2, (k, ts1) # rest1)))"

definition deepcopy :: "heap \<Rightarrow> transitions_config \<Rightarrow> heap \<times> transitions_config" where
  "deepcopy h c = (case deepcopy_items h [] c of (h1, memo, c1) \<Rightarrow> (h1, c1))"

text \<open>\<open>InvenioCirculation.circulation\<close>: the engine is built from a deep copy.\<close>

definition InvenioCirculation_circulation ::
  "heap \<Rightarrow> transitions_config \<Rightarrow> heap \<times> (error + (string \<rightharpoonup> transition list))" where
  "InvenioCirculation_circulation h app_config =
     (case deepcopy h app_config of (h1, c1) \<Rightarrow> Circulation_init h1 c1)"

text \<open>A configuration is well formed in a heap when its addresses are in the heap.\<close>

definition config_refs :: "transitions_config \<Rightarrow> nat list" where
  "config_refs c = concat (map snd c)"

definition wf_config :: "heap \<Rightarrow> transitions_config \<Rightarrow> bool" where
  "wf_config h c = list_all (\<lambda>a. a < length h) (config_refs c)"

section \<open>\<open>config.py\<close>: the default configuration\<close>

definition edge :: "string \<Rightarrow> string option \<Rightarrow> transition_class option \<Rightarrow> descriptor" where
  "edge d g c = \<lparr>dest_key = Some d, trigger_key = g, transition_key = c\<rparr>"

definition CONFIG_HEAP :: heap where
  "CONFIG_HEAP =
     [edge ''PENDING'' (Some ''request'') (Some CreatedToPending),
      edge ''ITEM_ON_LOAN'' (Some ''checkout'') (Some CreatedToItemOnLoan),
      edge ''ITEM_AT_DESK'' None (Some PendingToItemAtDesk),
      edge ''ITEM_IN_TRANSIT_FOR_PICKUP'' None (Some PendingToItemInTransitPickup),
      edge ''CANCELLED'' (Some ''cancel'') None,
      edge ''ITEM_ON_LOAN'' None (Some ItemAtDeskToItemOnLoan),
      edge ''CANCELLED'' (Some ''cancel'') None,
      edge ''ITEM_AT_DESK'' None None,
      edge ''CANCELLED'' (Some ''cancel'') None,
      edge ''ITEM_RETURNED'' None (Some ItemOnLoanToItemReturned),
      edge ''ITEM_IN_TRANSIT_TO_HOUSE'' None (Some ItemOnLoanToItemInTransitHouse),
      edge ''CANCELLED'' (Some ''cancel'') None,
      edge ''ITEM_RETURNED'' None None,
      edge ''CANCELLED'' (Some ''cancel'') None]"

definition CIRCULATION_LOAN_TRANSITIONS :: transitions_config where
  "CIRCULATION_LOAN_TRANSITIONS =
     [(''CREATED'', [0, 1]),
      (''PENDING'', [2, 3, 4]),
      (''ITEM_AT_DESK'', [5, 6]),
      (''ITEM_IN_TRANSIT_FOR_PICKUP'', [7, 8]),
      (''ITEM_ON_LOAN'', [9, 10, 11]),
      (''ITEM_IN_TRANSIT_TO_HOUSE'', [12, 13]),
      (''ITEM_RETURNED'', []),
      (''CANCELLED'', [])]"

definition CIRCULATION_STATES_ITEM_AVAILABLE :: "string list" where
  "CIRCULATION_STATES_ITEM_AVAILABLE = [''ITEM_RETURNED'']"

text \<open>The engine of the application: built from the default configuration.\<close>

definition current_circulation :: "string \<rightharpoonup> transition list" where
  "current_circulation =
     (case snd (InvenioCirculation_circulation CONFIG_HEAP CIRCULATION_LOAN_TRANSITIONS) of
        Inl e \<Rightarrow> Map.empty
      | Inr transitions \<Rightarrow> transitions)"

text \<open>
  The destinations that the specification declares for each state, in its words:
  CREATED to PENDING or ITEM_ON_LOAN; PENDING to ITEM_AT_DESK, ITEM_IN_TRANSIT_FOR_PICKUP
  or CANCELLED; and so on; ITEM_RETURNED and CANCELLED have none.
\<close>

definition declared_destinations :: "string \<Rightarrow> string list" where
  "declared_destinations s =
     (if s = ''CREATED'' then [''PENDING'', ''ITEM_ON_LOAN'']
      else if s = ''PENDING'' then [''ITEM_AT_DESK'', ''ITEM_IN_TRANSIT_FOR_PICKUP'', ''CANCELLED'']
      else if s = ''ITEM_AT_DESK'' then [''ITEM_ON_LOAN'', ''CANCELLED'']
      else if s = ''ITEM_IN_TRANSIT_FOR_PICKUP'' then [''ITEM_AT_DESK'', ''CANCELLED'']
      else if s = ''ITEM_ON_LOAN'' then [''ITEM_RETURNED'', ''ITEM_IN_TRANSIT_TO_HOUSE'', ''CANCELLED'']
      else if s = ''ITEM_IN_TRANSIT_TO_HOUSE'' then [''ITEM_RETURNED'', ''CANCELLED'']
      else [])"

section \<open>Item availability\<close>

text \<open>\<open>utils.py\<close>: the default of the policy \<open>item_available\<close>.\<close>

definition is_item_available :: "pyval \<Rightarrow> bool" where
  "is_item_available item_pid = True"

text \<open>
  Modelled from the spec: \<open>Loan.get_loans\<close> is in \<open>api.py\<close>, which is not among
  the sources; the tests call it with an item and \<open>exclude_states\<close>. It returns the
  loans of the item that are in none of the excluded states. The loans are the indexed
  loans, a list.
\<close>

definition get_loans :: "loan list \<Rightarrow> pyval \<Rightarrow> string list \<Rightarrow> loan list" where
  "get_loans loans item_pid exclude_states =
     filter (\<lambda>l. py_eq (get l ''item_pid'') item_pid \<and>
                 (case get l ''state'' of VStr s \<Rightarrow> s \<notin> set exclude_states | _ \<Rightarrow> True))
            loans"

text \<open>
  Modelled from the spec: a terminal state is a state with no outgoing transitions
  (ITEM_RETURNED, CANCELLED), here read off the table of \<open>config.py\<close>.
\<close>

definition terminal_states :: "string list" where
  "terminal_states = map fst (filter (\<lambda>(s, ts). ts = []) CIRCULATION_LOAN_TRANSITIONS)"

text \<open>
  Modelled from the spec: the \<open>is_item_available\<close> of \<open>api.py\<close> (absent), which
  the tests import. Following the specification, it queries the non-terminal loans of
  the item and checks whether any of them is in an unavailable state, that is, in a state
  other than those of the configured \<open>CIRCULATION_STATES_ITEM_AVAILABLE\<close>; the item is
  available when there is none.
\<close>

definition api_is_item_available :: "loan list \<Rightarrow> pyval \<Rightarrow> bool" where
  "api_is_item_available loans item_pid =
     (filter (\<lambda>l. case get l ''state'' of
                    VStr s \<Rightarrow> s \<notin> set CIRCULATION_STATES_ITEM_AVAILABLE
                  | _ \<Rightarrow> True)
        (get_loans loans item_pid terminal_states) = [])"

section \<open>Test fixtures\<close>

text \<open>
  The dates of the test-suite as a table for the two library functions:
  2018-02-01T09:30:00+02:00, the same thirty days later, and 2018-02-10T09:30:00+02:00.
\<close>

definition feb01 :: datetime where
  "feb01 = \<lparr>instant = 1517470200000000, utcoffset = Some 120\<rparr>"

definition mar03 :: datetime where
  "mar03 = \<lparr>instant = 1520062200000000, utcoffset = Some 120\<rparr>"

definition feb10 :: datetime where
  "feb10 = \<lparr>instant = 1518247800000000, utcoffset = Some 120\<rparr>"

definition test_parse_datetime :: "string \<Rightarrow> datetime option" where
  "test_parse_datetime s =
     (if s = ''2018-02-01T09:30:00+02:00'' then Some feb01
      else if s = ''2018-03-03T09:30:00+02:00'' then Some mar03
      else if s = ''2018-02-10T09:30:00+02:00'' then Some feb10
      else None)"

definition test_isoformat :: "datetime \<Rightarrow> string" where
  "test_isoformat d =
     (if d = feb01 then ''2018-02-01T09:30:00+02:00''
      else if d = mar03 then ''2018-03-03T09:30:00+02:00''
      else if d = feb10 then ''2018-02-10T09:30:00+02:00''
      else ''other'')"

definition test_env :: "(pyval \<Rightarrow> pyval) \<Rightarrow> env" where
  "test_env retriever =
     \<lparr>CIRCULATION_ITEM_LOCATION_RETRIEVER = retriever,
      duration_default = get_default_loan_duration,
      validate = is_loan_valid,
      parse_datetime = test_parse_datetime,
      isoformat = test_isoformat\<rparr>"

definition params :: kwargs where
  "params =
     \<lparr>kw_trigger = None,
      kw_transaction_date = VStr ''2018-02-01T09:30:00+02:00'',
      kw_transaction_location_pid = Some (VStr ''loc_pid''),
      kw_pickup_location_pid = None,
      kw_start_date = None,
      kw_end_date = None\<rparr>"

definition loan_created :: loan where
  "loan_created = [''state'' \<mapsto> VStr ''CREATED'', ''item_pid'' \<mapsto> VStr ''item_pid'']"

definition t_request :: transition where
  "t_request =
     \<lparr>cls = CreatedToPending, src = ''CREATED'', dest = ''PENDING'', trigger = Some ''request''\<rparr>"

definition t_checkout :: transition where
  "t_checkout =
     \<lparr>cls = CreatedToItemOnLoan, src = ''CREATED'', dest = ''ITEM_ON_LOAN'',
      trigger = Some ''checkout''\<rparr>"

definition kw_inverted :: kwargs where
  "kw_inverted =
     params\<lparr>kw_trigger := Some ''checkout'', kw_start_date := Some (VDate feb10),
            kw_end_date := Some (VDate feb01)\<rparr>"

definition kw_checkout :: kwargs where
  "kw_checkout = params\<lparr>kw_trigger := Some ''checkout''\<rparr>"

text \<open>The table that construction yields from the default configuration.\<close>

definition loan_transitions :: "string \<rightharpoonup> transition list" where
  "loan_transitions =
     [''CREATED'' \<mapsto>
        [\<lparr>cls = CreatedToPending, src = ''CREATED'', dest = ''PENDING'',
          trigger = Some ''request''\<rparr>,
         \<lparr>cls = CreatedToItemOnLoan, src = ''CREATED'', dest = ''ITEM_ON_LOAN'',
          trigger = Some ''checkout''\<rparr>],
      ''PENDING'' \<mapsto>
        [\<lparr>cls = PendingToItemAtDesk, src = ''PENDING'', dest = ''ITEM_AT_DESK'',
          trigger = None\<rparr>,
         \<lparr>cls = PendingToItemInTransitPickup, src = ''PENDING'',
          dest = ''ITEM_IN_TRANSIT_FOR_PICKUP'', trigger = None\<rparr>,
         \<lparr>cls = Transition, src = ''PENDING'', dest = ''CANCELLED'',
          trigger = Some ''cancel''\<rparr>],
      ''ITEM_AT_DESK'' \<mapsto>
        [\<lparr>cls = ItemAtDeskToItemOnLoan, src = ''ITEM_AT_DESK'', dest = ''ITEM_ON_LOAN'',
          trigger = None\<rparr>,
         \<lparr>cls = Transition, src = ''ITEM_AT_DESK'', dest = ''CANCELLED'',
          trigger = Some ''cancel''\<rparr>],
      ''ITEM_IN_TRANSIT_FOR_PICKUP'' \<mapsto>
        [\<lparr>cls = Transition, src = ''ITEM_IN_TRANSIT_FOR_PICKUP'', dest = ''ITEM_AT_DESK'',
          trigger = None\<rparr>,
         \<lparr>cls = Transition, src = ''ITEM_IN_TRANSIT_FOR_PICKUP'', dest = ''CANCELLED'',
          trigger = Some ''cancel''\<rparr>],
      ''ITEM_ON_LOAN'' \<mapsto>
        [\<lparr>cls = ItemOnLoanToItemReturned, src = ''ITEM_ON_LOAN'', dest = ''ITEM_RETURNED'',
          trigger = None\<rparr>,
         \<lparr>cls = ItemOnLoanToItemInTransitHouse, src = ''ITEM_ON_LOAN'',
          dest = ''ITEM_IN_TRANSIT_TO_HOUSE'', trigger = None\<rparr>,
         \<lparr>cls = Transition, src = ''ITEM_ON_LOAN'', dest = ''CANCELLED'',
          trigger = Some ''cancel''\<rparr>],
      ''ITEM_IN_TRANSIT_TO_HOUSE'' \<mapsto>
        [\<lparr>cls = Transition, src = ''ITEM_IN_TRANSIT_TO_HOUSE'', dest = ''ITEM_RETURNED'',
          trigger = None\<rparr>,
         \<lparr>cls = Transition, src = ''ITEM_IN_TRANSIT_TO_HOUSE'', dest = ''CANCELLED'',
          trigger = Some ''cancel''\<rparr>],
      ''ITEM_RETURNED'' \<mapsto> [],
      ''CANCELLED'' \<mapsto> []]"

text \<open>A validation policy that returns a falsy value instead of raising.\<close>

definition validate_false :: "loan \<Rightarrow> pyval \<Rightarrow> pyval \<Rightarrow> error + bool" where
  "validate_false loan start_date end_date = Inr False"

definition loan_pending :: loan where
  "loan_pending =
     [''state'' \<mapsto> VStr ''PENDING'', ''item_pid'' \<mapsto> VStr ''item_pid'',
      ''pickup_location_pid'' \<mapsto> VStr ''pickup_location_pid'']"

definition loan_at_desk :: loan where
  "loan_at_desk = [''state'' \<mapsto> VStr ''ITEM_AT_DESK'', ''item_pid'' \<mapsto> VStr ''item_pid'']"

definition loan_on_loan :: loan where
  "loan_on_loan = [''state'' \<mapsto> VStr ''ITEM_ON_LOAN'', ''item_pid'' \<mapsto> VStr ''item_pid'']"

definition kw_cancel :: kwargs where
  "kw_cancel = params\<lparr>kw_trigger := Some ''cancel''\<rparr>"

definition t_at_desk_checkout :: transition where
  "t_at_desk_checkout =
     \<lparr>cls = ItemAtDeskToItemOnLoan, src = ''ITEM_AT_DESK'', dest = ''ITEM_ON_LOAN'',
      trigger = None\<rparr>"

definition retriever_at :: "string \<Rightarrow> pyval \<Rightarrow> pyval" where
  "retriever_at location item_pid = VStr location"

definition loan_cancelled :: loan where
  "loan_cancelled = [''state'' \<mapsto> VStr ''CANCELLED'', ''item_pid'' \<mapsto> VStr ''item_cancelled'']"

definition loan_returned :: loan where
  "loan_returned = [''state'' \<mapsto> VStr ''ITEM_RETURNED'', ''item_pid'' \<mapsto> VStr ''item_returned_3'']"

section \<open>Evaluation\<close>

lemmas before_defs =
  before_def Transition_before_def CreatedToPending_before_def CreatedToItemOnLoan_before_def
  PendingToItemAtDesk_before_def PendingToItemInTransitPickup_before_def
  ItemAtDeskToItemOnLoan_before_def ItemOnLoanToItemInTransitHouse_before_def
  ItemOnLoanToItemReturned_before_def

lemmas value_defs =
  get_def setdefault_def put_opt_def update_loan_def parse_date_def py_add_days_def py_lt_def
  timedelta_days_def datetime_add_def datetime_lt_def datetime_sub_def wall_clock_def
  datetime_min_def datetime_max_def is_same_location_def

lemmas fixture_defs =
  test_env_def test_parse_datetime_def test_isoformat_def feb01_def feb10_def mar03_def
  params_def loan_created_def get_default_loan_duration_def is_loan_valid_def
  item_location_retriever_def

lemma execute_request_on_checkout:
  "execute (test_env item_location_retriever) t_request loan_created kw_inverted =
   (Some TransitionConditionsFailed, loan_created)"
  by (simp add: execute_def before_defs t_request_def kw_inverted_def params_def)

lemma execute_checkout_inverted:
  "fst (execute (test_env item_location_retriever) t_checkout loan_created kw_inverted) =
   Some TransitionConstraintsViolation"
  by (simp add: execute_def before_defs t_checkout_def kw_inverted_def ensure_valid_loan_def
      value_defs fixture_defs)

section \<open>The engine loop\<close>

lemma try_transitions_never_soft:
  "fst (try_transitions ex ts loan kw) = Some e \<Longrightarrow> \<not> isinstance_TransitionValidationFailed e"
proof (induction ts arbitrary: loan)
  case Nil
  then show ?case by auto
next
  case (Cons t ts)
  show ?case
  proof (cases "ex t loan kw")
    case (Pair r loan1)
    show ?thesis
    proof (cases r)
      case None
      with Pair Cons.prems show ?thesis by simp
    next
      case (Some e')
      show ?thesis
      proof (cases "isinstance_TransitionValidationFailed e'")
        case True
        with Pair Some Cons.prems have "fst (try_transitions ex ts loan1 kw) = Some e" by simp
        then show ?thesis by (rule Cons.IH)
      next
        case False
        with Pair Some Cons.prems show ?thesis by auto
      qed
    qed
  qed
qed

lemma trigger_never_soft:
  "fst (Circulation_trigger cfg transitions loan kw) = Some e \<Longrightarrow>
   \<not> isinstance_TransitionValidationFailed e"
  unfolding Circulation_trigger_def Let_def
  by (auto simp: validate_current_state_def split: option.splits pyval.splits if_splits
      dest: try_transitions_never_soft)

section \<open>The transition table\<close>

lemma current_circulation_eq: "current_circulation = loan_transitions"
  unfolding current_circulation_def InvenioCirculation_circulation_def deepcopy_def
    CIRCULATION_LOAN_TRANSITIONS_def CONFIG_HEAP_def Circulation_init_def loan_transitions_def
  by (simp add: edge_def Transition_init_def STATES_def Let_def)

lemma dest_declared:
  "current_circulation s = Some ts \<Longrightarrow> t \<in> set ts \<Longrightarrow> dest t \<in> set (declared_destinations s)"
  unfolding current_circulation_eq loan_transitions_def declared_destinations_def
  by (auto split: if_splits)

section \<open>What \<open>execute\<close> does to the state of the loan\<close>

lemma update_loan_state: "update_loan loan kw ''state'' = loan ''state''"
  by (simp add: update_loan_def put_opt_def split: option.splits)

lemma ensure_valid_loan_state:
  "ensure_valid_loan cfg loan = (r, loan1) \<Longrightarrow> loan1 ''state'' = loan ''state''"
  unfolding ensure_valid_loan_def Let_def
  by (auto simp: setdefault_def split: option.splits sum.splits bool.splits pyval.splits if_splits)

lemma before_state: "before cfg t loan kw = (r, loan1) \<Longrightarrow> loan1 ''state'' = loan ''state''"
  unfolding before_defs
  by (auto simp: update_loan_state dest: ensure_valid_loan_state
      split: transition_class.splits option.splits sum.splits if_splits prod.splits)

lemma execute_success_state:
  "execute cfg t loan kw = (None, loan') \<Longrightarrow> loan' ''state'' = Some (VStr (dest t))"
  unfolding execute_def Transition_after_def
  by (auto split: prod.splits option.splits)

lemma execute_failure_state:
  "execute cfg t loan kw = (Some e, loan1) \<Longrightarrow> loan1 ''state'' = loan ''state''"
  unfolding execute_def
  by (auto dest: before_state split: prod.splits option.splits)

lemma try_transitions_success:
  "try_transitions ex ts loan kw = (None, loan') \<Longrightarrow>
   \<exists>ts1 t ts2 l1. ts = ts1 @ t # ts2 \<and>
     try_transitions ex ts1 loan kw = (Some NoValidTransitionAvailable, l1) \<and>
     ex t l1 kw = (None, loan') \<and>
     (\<forall>rest. try_transitions ex (ts1 @ t # rest) loan kw = (None, loan'))"
proof (induction ts arbitrary: loan)
  case Nil
  then show ?case by simp
next
  case (Cons a ts)
  obtain r l where ex: "ex a loan kw = (r, l)" by (cases "ex a loan kw")
  show ?case
  proof (cases r)
    case None
    with ex Cons.prems have "l = loan'" by simp
    with ex None have "a # ts = [] @ a # ts \<and>
       try_transitions ex [] loan kw = (Some NoValidTransitionAvailable, loan) \<and>
       ex a loan kw = (None, loan') \<and>
       (\<forall>rest. try_transitions ex ([] @ a # rest) loan kw = (None, loan'))"
      by simp
    then show ?thesis by blast
  next
    case (Some e)
    with ex Cons.prems have soft: "isinstance_TransitionValidationFailed e"
      by (auto split: if_splits)
    with ex Some Cons.prems have "try_transitions ex ts l kw = (None, loan')" by simp
    from Cons.IH [OF this] obtain ts1 t ts2 l1 where d: "ts = ts1 @ t # ts2"
      "try_transitions ex ts1 l kw = (Some NoValidTransitionAvailable, l1)"
      "ex t l1 kw = (None, loan')"
      "\<forall>rest. try_transitions ex (ts1 @ t # rest) l kw = (None, loan')"
      by blast
    from d ex Some soft have "a # ts = (a # ts1) @ t # ts2 \<and>
       try_transitions ex (a # ts1) loan kw = (Some NoValidTransitionAvailable, l1) \<and>
       ex t l1 kw = (None, loan') \<and>
       (\<forall>rest. try_transitions ex ((a # ts1) @ t # rest) loan kw = (None, loan'))"
      by simp
    then show ?thesis by blast
  qed
qed

section \<open>Checkout from CREATED\<close>

lemma trigger_CREATED:
  assumes "loan ''state'' = Some (VStr ''CREATED'')"
  shows "Circulation_trigger cfg current_circulation loan kw =
         try_transitions (execute cfg) [t_request, t_checkout] loan kw"
  using assms
  by (simp add: Circulation_trigger_def validate_current_state_def get_def
      current_circulation_eq loan_transitions_def t_request_def t_checkout_def)

lemma trigger_checkout:
  assumes "loan ''state'' = Some (VStr ''CREATED'')" and "kw_trigger kw = Some ''checkout''"
  shows "Circulation_trigger cfg current_circulation loan kw =
         (case ensure_valid_loan cfg (update_loan loan kw) of
            (None, l) \<Rightarrow> (None, l(''state'' \<mapsto> VStr ''ITEM_ON_LOAN''))
          | (Some e, l) \<Rightarrow>
              (if isinstance_TransitionValidationFailed e
               then (Some NoValidTransitionAvailable, l) else (Some e, l)))"
  using assms
  by (simp add: trigger_CREATED execute_def before_def Transition_before_def
      CreatedToPending_before_def CreatedToItemOnLoan_before_def Transition_after_def
      t_request_def t_checkout_def split: prod.splits option.splits)

lemma checkout_succeeds:
  "fst (Circulation_trigger (test_env item_location_retriever) current_circulation
     loan_created kw_checkout) = None"
  by (simp add: trigger_checkout kw_checkout_def ensure_valid_loan_def value_defs fixture_defs)

text \<open>
  C1. A successful \<open>trigger\<close> on the engine of the default configuration applies one
  transition: the loan is in a state \<open>s\<close> of the table, whose candidates split into a
  prefix of rejected candidates, the one candidate \<open>t\<close> whose \<open>execute\<close> returns the
  loan that \<open>trigger\<close> returns, and a rest that is never run (the result is the same
  for any rest). The state of the returned loan is the destination of \<open>t\<close>, and this is
  one of the destinations that the specification declares for \<open>s\<close>.
\<close>

theorem trigger_applies_one_declared_transition:
  assumes "Circulation_trigger cfg current_circulation loan kw = (None, loan')"
  shows "\<exists>s ts1 t ts2 l1.
     loan ''state'' = Some (VStr s) \<and>
     current_circulation s = Some (ts1 @ t # ts2) \<and>
     try_transitions (execute cfg) ts1 loan kw = (Some NoValidTransitionAvailable, l1) \<and>
     execute cfg t l1 kw = (None, loan') \<and>
     (\<forall>rest. try_transitions (execute cfg) (ts1 @ t # rest) loan kw = (None, loan')) \<and>
     loan' ''state'' = Some (VStr (dest t)) \<and>
     dest t \<in> set (declared_destinations s)"
proof -
  from assms obtain s ts where s: "loan ''state'' = Some (VStr s)"
    and ts: "current_circulation s = Some ts"
    and run: "try_transitions (execute cfg) ts loan kw = (None, loan')"
    unfolding Circulation_trigger_def Let_def
    by (auto simp: validate_current_state_def get_def split: option.splits pyval.splits if_splits)
  from try_transitions_success [OF run] obtain ts1 t ts2 l1 where d: "ts = ts1 @ t # ts2"
      "try_transitions (execute cfg) ts1 loan kw = (Some NoValidTransitionAvailable, l1)"
      "execute cfg t l1 kw = (None, loan')"
      "\<forall>rest. try_transitions (execute cfg) (ts1 @ t # rest) loan kw = (None, loan')"
    by blast
  have "dest t \<in> set (declared_destinations s)"
    using dest_declared [OF ts, of t] d(1) by simp
  with s ts d execute_success_state [OF d(3)] show ?thesis by blast
qed

theorem trigger_applies_one_declared_transition_witness:
  "\<exists>s ts1 t ts2 l1.
     loan_created ''state'' = Some (VStr s) \<and>
     current_circulation s = Some (ts1 @ t # ts2) \<and>
     try_transitions (execute (test_env item_location_retriever)) ts1 loan_created kw_checkout =
       (Some NoValidTransitionAvailable, l1) \<and>
     execute (test_env item_location_retriever) t l1 kw_checkout =
       (None, snd (Circulation_trigger (test_env item_location_retriever) current_circulation
          loan_created kw_checkout)) \<and>
     (\<forall>rest. try_transitions (execute (test_env item_location_retriever)) (ts1 @ t # rest)
          loan_created kw_checkout =
       (None, snd (Circulation_trigger (test_env item_location_retriever) current_circulation
          loan_created kw_checkout))) \<and>
     snd (Circulation_trigger (test_env item_location_retriever) current_circulation
          loan_created kw_checkout) ''state'' = Some (VStr (dest t)) \<and>
     dest t \<in> set (declared_destinations s)"
proof -
  have h: "Circulation_trigger (test_env item_location_retriever) current_circulation
      loan_created kw_checkout =
    (None, snd (Circulation_trigger (test_env item_location_retriever) current_circulation
      loan_created kw_checkout))"
    using checkout_succeeds by (simp add: prod_eq_iff)
  show ?thesis by (rule trigger_applies_one_declared_transition [OF h])
qed

text \<open>
  C5. A checkout (the call names the trigger \<open>checkout\<close>) of a loan in CREATED whose end
  date parses to a datetime strictly earlier than its start date raises
  \<open>TransitionConstraintsViolation\<close> out of \<open>trigger\<close>, and the loan is left in state
  CREATED. The dates are read from the loan once the context of the call is stored in it;
  the start date defaults to the transaction date.
\<close>

theorem checkout_inverted_dates_hard_fails:
  assumes "loan ''state'' = Some (VStr ''CREATED'')"
    and "kw_trigger kw = Some ''checkout''"
    and "loan1 = setdefault (update_loan loan kw) ''start_date'' (kw_transaction_date kw)"
    and "parse_date cfg (get loan1 ''start_date'') = Inr (VDate s)"
    and "parse_date cfg (get loan1 ''end_date'') = Inr (VDate e)"
    and "datetime_lt e s = Inr True"
  shows "Circulation_trigger cfg current_circulation loan kw =
           (Some TransitionConstraintsViolation, loan1) \<and>
         loan1 ''state'' = Some (VStr ''CREATED'')"
proof -
  have td: "update_loan loan kw ''transaction_date'' = Some (kw_transaction_date kw)"
    by (simp add: update_loan_def put_opt_def split: option.splits)
  from assms(5) have present: "loan1 ''end_date'' \<noteq> None"
    by (auto simp: parse_date_def get_def split: option.splits if_splits)
  have ev: "ensure_valid_loan cfg (update_loan loan kw) =
      (Some TransitionConstraintsViolation, loan1)"
    using assms(3-6) present td
    by (auto simp: ensure_valid_loan_def Let_def py_lt_def)
  have st: "loan1 ''state'' = Some (VStr ''CREATED'')"
    using assms(1,3) by (simp add: setdefault_def update_loan_state split: option.splits)
  show ?thesis using ev st assms(1,2) by (simp add: trigger_checkout)
qed

theorem checkout_inverted_dates_hard_fails_witness:
  "Circulation_trigger (test_env item_location_retriever) current_circulation loan_created
     kw_inverted =
   (Some TransitionConstraintsViolation,
    setdefault (update_loan loan_created kw_inverted) ''start_date''
      (kw_transaction_date kw_inverted)) \<and>
   setdefault (update_loan loan_created kw_inverted) ''start_date''
      (kw_transaction_date kw_inverted) ''state'' = Some (VStr ''CREATED'')"
proof -
  have a: "loan_created ''state'' = Some (VStr ''CREATED'')"
    by (simp add: loan_created_def)
  have b: "kw_trigger kw_inverted = Some ''checkout''"
    by (simp add: kw_inverted_def)
  have c: "parse_date (test_env item_location_retriever)
      (get (setdefault (update_loan loan_created kw_inverted) ''start_date''
         (kw_transaction_date kw_inverted)) ''start_date'') = Inr (VDate feb10)"
    by (simp add: kw_inverted_def params_def loan_created_def value_defs)
  have d: "parse_date (test_env item_location_retriever)
      (get (setdefault (update_loan loan_created kw_inverted) ''start_date''
         (kw_transaction_date kw_inverted)) ''end_date'') = Inr (VDate feb01)"
    by (simp add: kw_inverted_def params_def loan_created_def value_defs)
  have e: "datetime_lt feb01 feb10 = Inr True"
    by (simp add: datetime_lt_def feb01_def feb10_def)
  show ?thesis by (rule checkout_inverted_dates_hard_fails [OF a b refl c d e])
qed

lemma update_loan_transaction_date:
  "update_loan loan kw ''transaction_date'' = Some (kw_transaction_date kw)"
  by (simp add: update_loan_def put_opt_def split: option.splits)

text \<open>
  C6. A checkout (the call names the trigger \<open>checkout\<close>) of a loan in CREATED with no
  end date, whose start date is absent or equal to the transaction date, under the default
  policies of \<open>utils.py\<close> (a duration of 30 days), succeeds when the transaction date
  parses to a datetime \<open>s\<close> and \<open>s\<close> plus 30 days is in the range of
  \<open>datetime\<close>. The returned loan is in ITEM_ON_LOAN; its \<open>start_date\<close> is the
  string \<open>isoformat s\<close> and its \<open>end_date\<close> is the string \<open>isoformat\<close> of
  \<open>s\<close> plus 30 days.
\<close>

theorem checkout_default_duration:
  assumes "loan ''state'' = Some (VStr ''CREATED'')"
    and "kw_trigger kw = Some ''checkout''"
    and "\<not> truthy (get (update_loan loan kw) ''end_date'')"
    and "update_loan loan kw ''start_date'' = None \<or>
         update_loan loan kw ''start_date'' = Some (kw_transaction_date kw)"
    and "parse_date cfg (kw_transaction_date kw) = Inr (VDate s)"
    and "datetime_min \<le> wall_clock s + 30 * 86400000000"
    and "wall_clock s + 30 * 86400000000 \<le> datetime_max"
    and "duration_default cfg = get_default_loan_duration"
    and "validate cfg = is_loan_valid"
  shows "\<exists>loan'. Circulation_trigger cfg current_circulation loan kw = (None, loan') \<and>
           loan' ''state'' = Some (VStr ''ITEM_ON_LOAN'') \<and>
           loan' ''start_date'' = Some (VStr (isoformat cfg s)) \<and>
           loan' ''end_date'' =
             Some (VStr (isoformat cfg (s\<lparr>instant := instant s + 30 * 86400000000\<rparr>)))"
proof -
  define L where "L = update_loan loan kw"
  define L1 where "L1 = setdefault L ''start_date'' (kw_transaction_date kw)"
  have td: "L ''transaction_date'' = Some (kw_transaction_date kw)"
    by (simp add: L_def update_loan_transaction_date)
  have sd: "get L1 ''start_date'' = kw_transaction_date kw"
    using assms(4) by (auto simp: L1_def L_def setdefault_def get_def)
  have ed: "get L1 ''end_date'' = get L ''end_date''"
    by (simp add: L1_def setdefault_def get_def split: option.splits)
  from assms(3) have pe: "parse_date cfg (get L ''end_date'') = Inr (get L ''end_date'')"
    by (simp add: parse_date_def L_def)
  have add: "py_add_days (VDate s) 30 =
      Inr (VDate (s\<lparr>instant := instant s + 30 * 86400000000\<rparr>))"
    using assms(6,7) by (simp add: py_add_days_def timedelta_days_def datetime_add_def)
  have lt: "py_lt (VDate (s\<lparr>instant := instant s + 30 * 86400000000\<rparr>)) (VDate s) = Inr False"
    by (simp add: py_lt_def datetime_lt_def)
  have ok: "is_loan_valid L1 (VDate s) (VDate (s\<lparr>instant := instant s + 30 * 86400000000\<rparr>)) =
      Inr True"
    by (simp add: is_loan_valid_def datetime_sub_def)
  have ev: "ensure_valid_loan cfg L =
      (None, L1(''start_date'' \<mapsto> VStr (isoformat cfg s),
                ''end_date'' \<mapsto> VStr (isoformat cfg (s\<lparr>instant := instant s + 30 * 86400000000\<rparr>))))"
    using td sd ed pe assms(3,5,8,9) add lt ok
    by (simp add: ensure_valid_loan_def Let_def L1_def [symmetric] L_def [symmetric]
        get_default_loan_duration_def)
  show ?thesis
    using assms(1,2) ev by (simp add: trigger_checkout L_def [symmetric])
qed



theorem checkout_default_duration_witness:
  "\<exists>loan'. Circulation_trigger (test_env item_location_retriever) current_circulation
       loan_created kw_checkout = (None, loan') \<and>
     loan' ''state'' = Some (VStr ''ITEM_ON_LOAN'') \<and>
     loan' ''start_date'' = Some (VStr ''2018-02-01T09:30:00+02:00'') \<and>
     loan' ''end_date'' = Some (VStr ''2018-03-03T09:30:00+02:00'')"
proof -
  have a: "loan_created ''state'' = Some (VStr ''CREATED'')"
    by (simp add: loan_created_def)
  have b: "kw_trigger kw_checkout = Some ''checkout''"
    by (simp add: kw_checkout_def)
  have c: "\<not> truthy (get (update_loan loan_created kw_checkout) ''end_date'')"
    by (simp add: kw_checkout_def params_def loan_created_def value_defs)
  have d: "update_loan loan_created kw_checkout ''start_date'' = None \<or>
      update_loan loan_created kw_checkout ''start_date'' =
        Some (kw_transaction_date kw_checkout)"
    by (simp add: kw_checkout_def params_def loan_created_def value_defs)
  have e: "parse_date (test_env item_location_retriever) (kw_transaction_date kw_checkout) =
      Inr (VDate feb01)"
    by (simp add: kw_checkout_def params_def parse_date_def test_env_def
        test_parse_datetime_def)
  have f: "datetime_min \<le> wall_clock feb01 + 30 * 86400000000"
    by (simp add: datetime_min_def wall_clock_def feb01_def)
  have g: "wall_clock feb01 + 30 * 86400000000 \<le> datetime_max"
    by (simp add: datetime_max_def wall_clock_def feb01_def)
  have h: "duration_default (test_env item_location_retriever) = get_default_loan_duration"
    by (simp add: test_env_def)
  have i: "validate (test_env item_location_retriever) = is_loan_valid"
    by (simp add: test_env_def)
  have iso1: "isoformat (test_env item_location_retriever) feb01 = ''2018-02-01T09:30:00+02:00''"
    by (simp add: test_env_def test_isoformat_def)
  have iso2: "isoformat (test_env item_location_retriever)
      (feb01\<lparr>instant := instant feb01 + 30 * 86400000000\<rparr>) = ''2018-03-03T09:30:00+02:00''"
    by (simp add: test_env_def test_isoformat_def feb01_def mar03_def feb10_def)
  from checkout_default_duration [OF a b c d e f g h i] show ?thesis
    by (simp only: iso1 iso2)
qed

section \<open>Soft and hard rejections in \<open>trigger\<close>\<close>

lemma try_transitions_after_soft_rejected:
  "soft_rejected ex ts1 loan kw = Some l \<Longrightarrow>
   try_transitions ex (ts1 @ rest) loan kw = try_transitions ex rest l kw"
proof (induction ts1 arbitrary: loan)
  case Nil
  then show ?case by simp
next
  case (Cons t ts1)
  from Cons.prems obtain loan1 where
    ex: "ex t loan kw = (Some TransitionConditionsFailed, loan1)"
    and tl: "soft_rejected ex ts1 loan1 kw = Some l"
    by (auto split: prod.splits option.splits error.splits)
  from Cons.IH [OF tl] ex show ?case by simp
qed

lemma trigger_after_soft_rejected:
  assumes "loan ''state'' = Some (VStr s)" and "s \<noteq> []"
    and "transitions s = Some (ts1 @ rest)"
    and "soft_rejected (execute cfg) ts1 loan kw = Some l"
  shows "Circulation_trigger cfg transitions loan kw = try_transitions (execute cfg) rest l kw"
  using assms try_transitions_after_soft_rejected [of "execute cfg" ts1 loan kw l rest]
  by (simp add: Circulation_trigger_def validate_current_state_def get_def)

text \<open>
  C2. In the loop of \<open>trigger\<close>, for any \<open>execute\<close>: when the candidate at the head
  raises the soft rejection \<open>TransitionConditionsFailed\<close>, the loop goes on with the
  next candidate on the loan as the rejected candidate left it; when it raises a hard
  rejection (\<open>TransitionConstraintsViolation\<close> or \<open>TransitionPoliciesViolation\<close>),
  the loop ends with that very exception, whatever candidates follow. Neither the loop
  nor \<open>trigger\<close> ever ends with \<open>TransitionConditionsFailed\<close>. For \<open>trigger\<close>
  itself, on a loan in a state of the table: when the candidates before a candidate are
  all soft-rejected and that candidate raises a hard rejection, \<open>trigger\<close> ends with
  that exception and the loan as the candidate left it, and no later candidate is run;
  when all the candidates of the state are soft-rejected, \<open>trigger\<close> ends with
  \<open>NoValidTransitionAvailable\<close>. Which classes \<open>except TransitionValidationFailed\<close>
  catches is taken from the specification.
\<close>

theorem soft_rejection_continues_hard_rejection_propagates:
  "(ex t loan kw = (Some TransitionConditionsFailed, loan1) \<longrightarrow>
      try_transitions ex (t # ts) loan kw = try_transitions ex ts loan1 kw) \<and>
   (e \<in> {TransitionConstraintsViolation, TransitionPoliciesViolation} \<longrightarrow>
    ex u l kw = (Some e, l1) \<longrightarrow>
      try_transitions ex (u # us) l kw = (Some e, l1)) \<and>
   fst (try_transitions ex ts loan kw) \<noteq> Some TransitionConditionsFailed \<and>
   fst (Circulation_trigger cfg transitions loan kw) \<noteq> Some TransitionConditionsFailed \<and>
   (loan2 ''state'' = Some (VStr s) \<longrightarrow> s \<noteq> [] \<longrightarrow>
    transitions s = Some (ts1 @ c # ts2) \<longrightarrow>
    soft_rejected (execute cfg) ts1 loan2 kw2 = Some l2 \<longrightarrow>
    e2 \<in> {TransitionConstraintsViolation, TransitionPoliciesViolation} \<longrightarrow>
    execute cfg c l2 kw2 = (Some e2, l3) \<longrightarrow>
      Circulation_trigger cfg transitions loan2 kw2 = (Some e2, l3)) \<and>
   (loan4 ''state'' = Some (VStr s4) \<longrightarrow> s4 \<noteq> [] \<longrightarrow>
    transitions s4 = Some ts4 \<longrightarrow>
    soft_rejected (execute cfg) ts4 loan4 kw4 = Some l4 \<longrightarrow>
      Circulation_trigger cfg transitions loan4 kw4 = (Some NoValidTransitionAvailable, l4))"
proof -
  have a: "fst (try_transitions ex ts loan kw) \<noteq> Some TransitionConditionsFailed"
    using try_transitions_never_soft [of ex ts loan kw TransitionConditionsFailed] by auto
  have b: "fst (Circulation_trigger cfg transitions loan kw) \<noteq> Some TransitionConditionsFailed"
    using trigger_never_soft [of cfg transitions loan kw TransitionConditionsFailed] by auto
  have c: "loan2 ''state'' = Some (VStr s) \<longrightarrow> s \<noteq> [] \<longrightarrow>
    transitions s = Some (ts1 @ c # ts2) \<longrightarrow>
    soft_rejected (execute cfg) ts1 loan2 kw2 = Some l2 \<longrightarrow>
    e2 \<in> {TransitionConstraintsViolation, TransitionPoliciesViolation} \<longrightarrow>
    execute cfg c l2 kw2 = (Some e2, l3) \<longrightarrow>
      Circulation_trigger cfg transitions loan2 kw2 = (Some e2, l3)"
    using trigger_after_soft_rejected [of loan2 s transitions ts1 "c # ts2" cfg kw2 l2]
    by auto
  have d: "loan4 ''state'' = Some (VStr s4) \<longrightarrow> s4 \<noteq> [] \<longrightarrow>
    transitions s4 = Some ts4 \<longrightarrow>
    soft_rejected (execute cfg) ts4 loan4 kw4 = Some l4 \<longrightarrow>
      Circulation_trigger cfg transitions loan4 kw4 = (Some NoValidTransitionAvailable, l4)"
    using trigger_after_soft_rejected [of loan4 s4 transitions ts4 "[]" cfg kw4 l4]
    by auto
  show ?thesis using a b c d by auto
qed

lemma execute_request_on_cancel:
  "execute (test_env item_location_retriever) t_request loan_created kw_cancel =
   (Some TransitionConditionsFailed, loan_created)"
  by (simp add: execute_def before_defs t_request_def kw_cancel_def params_def)

lemma execute_checkout_on_cancel:
  "execute (test_env item_location_retriever) t_checkout loan_created kw_cancel =
   (Some TransitionConditionsFailed, loan_created)"
  by (simp add: execute_def before_defs t_checkout_def kw_cancel_def params_def)

lemma current_circulation_CREATED:
  "current_circulation ''CREATED'' = Some [t_request, t_checkout]"
  by (simp add: current_circulation_eq loan_transitions_def t_request_def t_checkout_def)

theorem soft_rejection_continues_hard_rejection_propagates_witness:
  "try_transitions (execute (test_env item_location_retriever)) [t_request, t_checkout]
     loan_created kw_inverted =
   try_transitions (execute (test_env item_location_retriever)) [t_checkout]
     loan_created kw_inverted \<and>
   try_transitions (execute (test_env item_location_retriever)) [t_checkout, t_request]
     loan_created kw_inverted =
   (Some TransitionConstraintsViolation,
    snd (execute (test_env item_location_retriever) t_checkout loan_created kw_inverted)) \<and>
   fst (try_transitions (execute (test_env item_location_retriever)) [t_checkout]
     loan_created kw_inverted) \<noteq> Some TransitionConditionsFailed \<and>
   fst (Circulation_trigger (test_env item_location_retriever) current_circulation
     loan_created kw_inverted) \<noteq> Some TransitionConditionsFailed \<and>
   Circulation_trigger (test_env item_location_retriever) current_circulation
     loan_created kw_inverted =
   (Some TransitionConstraintsViolation,
    snd (execute (test_env item_location_retriever) t_checkout loan_created kw_inverted)) \<and>
   Circulation_trigger (test_env item_location_retriever) current_circulation
     loan_created kw_cancel =
   (Some NoValidTransitionAvailable, loan_created)"
proof -
  have soft: "execute (test_env item_location_retriever) t_request loan_created kw_inverted =
      (Some TransitionConditionsFailed, loan_created)"
    by (rule execute_request_on_checkout)
  have hard: "execute (test_env item_location_retriever) t_checkout loan_created kw_inverted =
      (Some TransitionConstraintsViolation,
       snd (execute (test_env item_location_retriever) t_checkout loan_created kw_inverted))"
    using execute_checkout_inverted by (simp add: prod_eq_iff)
  have mem: "TransitionConstraintsViolation \<in>
      {TransitionConstraintsViolation, TransitionPoliciesViolation}"
    by simp
  have st: "loan_created ''state'' = Some (VStr ''CREATED'')"
    by (simp add: loan_created_def)
  have ne: "''CREATED'' \<noteq> []" by simp
  have tab: "current_circulation ''CREATED'' = Some ([t_request] @ t_checkout # [])"
    by (simp add: current_circulation_CREATED)
  have tab2: "current_circulation ''CREATED'' = Some [t_request, t_checkout]"
    by (rule current_circulation_CREATED)
  have pre: "soft_rejected (execute (test_env item_location_retriever)) [t_request]
      loan_created kw_inverted = Some loan_created"
    by (simp add: soft)
  have all: "soft_rejected (execute (test_env item_location_retriever))
      [t_request, t_checkout] loan_created kw_cancel = Some loan_created"
    by (simp add: execute_request_on_cancel execute_checkout_on_cancel)
  from soft hard mem st ne tab tab2 pre all
    soft_rejection_continues_hard_rejection_propagates [of "execute (test_env item_location_retriever)" t_request loan_created kw_inverted
          loan_created "[t_checkout]" TransitionConstraintsViolation t_checkout loan_created
          "snd (execute (test_env item_location_retriever) t_checkout loan_created kw_inverted)"
          "[t_request]" "test_env item_location_retriever" current_circulation
          loan_created "''CREATED''" "[t_request]" t_checkout "[]" kw_inverted loan_created
          TransitionConstraintsViolation
          "snd (execute (test_env item_location_retriever) t_checkout loan_created kw_inverted)"
          loan_created "''CREATED''" "[t_request, t_checkout]" kw_cancel loan_created]
  show ?thesis by blast
qed

section \<open>The assertion on the validation policy\<close>

lemma parse_date_modify [simp]: "parse_date (cfg\<lparr>validate := v\<rparr>) x = parse_date cfg x"
  by (cases x) (simp_all add: parse_date_def)

lemma ensure_valid_loan_one_call:
  assumes "fst (ensure_valid_loan (cfg\<lparr>validate := \<lambda>l s e. Inr True\<rparr>) loan) = None"
  shows "\<exists>l s e. \<forall>v. ensure_valid_loan (cfg\<lparr>validate := v\<rparr>) loan =
           (case v l s e of
              Inl err \<Rightarrow> (Some err, l)
            | Inr False \<Rightarrow> (Some AssertionError, l)
            | Inr True \<Rightarrow> ensure_valid_loan (cfg\<lparr>validate := \<lambda>l s e. Inr True\<rparr>) loan)"
proof -
  from assms obtain td where td: "loan ''transaction_date'' = Some td"
    by (auto simp: ensure_valid_loan_def split: option.splits)
  define l where "l = setdefault loan ''start_date'' td"
  from assms td obtain s where s: "parse_date cfg (get l ''start_date'') = Inr s"
    by (auto simp: ensure_valid_loan_def Let_def l_def split: sum.splits)
  from assms td s obtain e0 where e0: "parse_date cfg (get l ''end_date'') = Inr e0"
    by (auto simp: ensure_valid_loan_def Let_def l_def split: sum.splits)
  from assms td s e0 obtain e where e:
    "(if \<not> truthy e0 then py_add_days s (duration_default cfg l) else Inr e0) = Inr e"
    by (auto simp: ensure_valid_loan_def Let_def l_def [symmetric] split: sum.splits
        cong: if_cong)
  from assms td s e0 e have lt: "py_lt e s = Inr False"
    by (auto simp: ensure_valid_loan_def Let_def l_def [symmetric]
        split: sum.splits bool.splits option.splits cong: if_cong)
  have "\<forall>v. ensure_valid_loan (cfg\<lparr>validate := v\<rparr>) loan =
           (case v l s e of
              Inl err \<Rightarrow> (Some err, l)
            | Inr False \<Rightarrow> (Some AssertionError, l)
            | Inr True \<Rightarrow> ensure_valid_loan (cfg\<lparr>validate := \<lambda>l s e. Inr True\<rparr>) loan)"
    using td s e0 e lt
    by (auto simp: ensure_valid_loan_def Let_def l_def [symmetric]
        split: sum.splits bool.splits pyval.splits cong: if_cong)
  then show ?thesis by blast
qed


lemma parse_date_error: "parse_date cfg x = Inl err \<Longrightarrow> err = ValueError"
  by (auto simp: parse_date_def split: if_splits pyval.splits option.splits)

lemma py_add_days_error: "py_add_days x n = Inl err \<Longrightarrow> err = OverflowError \<or> err = TypeError"
  by (auto simp: py_add_days_def timedelta_days_def datetime_add_def
      split: if_splits pyval.splits sum.splits)

lemma py_lt_error: "py_lt x y = Inl err \<Longrightarrow> err = TypeError"
  by (auto simp: py_lt_def datetime_lt_def split: if_splits pyval.splits)

lemma ensure_valid_loan_assert_only_on_falsy:
  assumes "\<forall>l s e. validate cfg l s e \<noteq> Inr False \<and> validate cfg l s e \<noteq> Inl AssertionError"
  shows "fst (ensure_valid_loan cfg loan) \<noteq> Some AssertionError"
proof (cases "loan ''transaction_date''")
  case None
  then show ?thesis by (simp add: ensure_valid_loan_def)
next
  case (Some td)
  define l where "l = setdefault loan ''start_date'' td"
  show ?thesis
  proof (cases "parse_date cfg (get l ''start_date'')")
    case (Inl err)
    with Some parse_date_error [OF Inl] show ?thesis
      by (simp add: ensure_valid_loan_def Let_def l_def [symmetric])
  next
    case s: (Inr s)
    show ?thesis
    proof (cases "parse_date cfg (get l ''end_date'')")
      case (Inl err)
      with Some s parse_date_error [OF Inl] show ?thesis
        by (simp add: ensure_valid_loan_def Let_def l_def [symmetric])
    next
      case e0: (Inr e0)
      show ?thesis
      proof (cases "if \<not> truthy e0 then py_add_days s (duration_default cfg l) else Inr e0")
        case (Inl err)
        then have "err \<noteq> AssertionError"
          by (auto split: if_splits dest: py_add_days_error)
        with Some s e0 Inl show ?thesis
          by (simp add: ensure_valid_loan_def Let_def l_def [symmetric])
      next
        case e: (Inr e)
        show ?thesis
        proof (cases "py_lt e s")
          case (Inl err)
          with Some s e0 e py_lt_error [OF Inl] show ?thesis
            by (simp add: ensure_valid_loan_def Let_def l_def [symmetric])
        next
          case lt: (Inr b)
          show ?thesis
          proof (cases b)
            case True
            with Some s e0 e lt show ?thesis
              by (simp add: ensure_valid_loan_def Let_def l_def [symmetric]
                  split: option.splits)
          next
            case False
            from assms have v: "validate cfg l s e \<noteq> Inr False"
              "validate cfg l s e \<noteq> Inl AssertionError" by auto
            with Some s e0 e lt False show ?thesis
              by (auto simp: ensure_valid_loan_def Let_def l_def [symmetric]
                  split: sum.splits bool.splits pyval.splits)
          qed
        qed
      qed
    qed
  qed
qed

lemma is_loan_valid_never_falsy:
  "is_loan_valid l s e \<noteq> Inr False \<and> is_loan_valid l s e \<noteq> Inl AssertionError"
  by (auto simp: is_loan_valid_def datetime_sub_def split: pyval.splits if_splits)

lemma trigger_checkout_assertion:
  assumes "loan ''state'' = Some (VStr ''CREATED'')" and "kw_trigger kw = Some ''checkout''"
    and "fst (ensure_valid_loan cfg (update_loan loan kw)) = Some AssertionError"
  shows "fst (Circulation_trigger cfg current_circulation loan kw) = Some AssertionError \<and>
         snd (Circulation_trigger cfg current_circulation loan kw) ''state'' =
           Some (VStr ''CREATED'')"
proof -
  obtain l where l: "ensure_valid_loan cfg (update_loan loan kw) = (Some AssertionError, l)"
    using assms(3) by (cases "ensure_valid_loan cfg (update_loan loan kw)") auto
  from ensure_valid_loan_state [OF l] have "l ''state'' = Some (VStr ''CREATED'')"
    using assms(1) by (simp add: update_loan_state)
  with l assms(1,2) show ?thesis by (simp add: trigger_checkout)
qed

lemma trigger_checkout_falsy:
  assumes "loan ''state'' = Some (VStr ''CREATED'')" and "kw_trigger kw = Some ''checkout''"
    and "\<forall>l s e. validate cfg l s e = Inr False"
    and "fst (Circulation_trigger (cfg\<lparr>validate := \<lambda>l s e. Inr True\<rparr>) current_circulation
           loan kw) = None"
  shows "fst (Circulation_trigger cfg current_circulation loan kw) = Some AssertionError \<and>
         snd (Circulation_trigger cfg current_circulation loan kw) ''state'' =
           Some (VStr ''CREATED'')"
proof -
  from assms(1,2,4)
  have ok: "fst (ensure_valid_loan (cfg\<lparr>validate := \<lambda>l s e. Inr True\<rparr>) (update_loan loan kw)) = None"
    by (auto simp: trigger_checkout split: prod.splits option.splits if_splits)
  from ensure_valid_loan_one_call [OF ok] obtain l s e where
    one: "\<forall>v. ensure_valid_loan (cfg\<lparr>validate := v\<rparr>) (update_loan loan kw) =
           (case v l s e of
              Inl err \<Rightarrow> (Some err, l)
            | Inr False \<Rightarrow> (Some AssertionError, l)
            | Inr True \<Rightarrow> ensure_valid_loan (cfg\<lparr>validate := \<lambda>l s e. Inr True\<rparr>)
                 (update_loan loan kw))"
    by blast
  have "cfg\<lparr>validate := validate cfg\<rparr> = cfg" by simp
  with one [rule_format, of "validate cfg"] assms(3)
  have "fst (ensure_valid_loan cfg (update_loan loan kw)) = Some AssertionError"
    by simp
  from trigger_checkout_assertion [OF assms(1,2) this] show ?thesis .
qed


text \<open>
  C10. The validation policy is checked with a bare \<open>assert\<close>. First, when the dates
  of a loan pass every check of \<open>_ensure_valid_loan\<close> (it succeeds under a policy that
  always accepts), the outcome under any policy \<open>v\<close> is decided by one call of
  \<open>v\<close>: an exception of \<open>v\<close> is raised as it is, a falsy result raises
  \<open>AssertionError\<close>, a truthy result succeeds. Second, a checkout from CREATED under a
  policy that returns falsy ends \<open>trigger\<close> with \<open>AssertionError\<close>, which is not
  a \<open>TransitionValidationFailed\<close>, and leaves the loan in CREATED. Third, under a
  policy that never returns falsy (and never raises \<open>AssertionError\<close> itself),
  \<open>_ensure_valid_loan\<close> never raises \<open>AssertionError\<close>. Fourth, the default
  policy \<open>is_loan_valid\<close> is such a policy.
\<close>

theorem assert_guards_validation_policy:
  "(fst (ensure_valid_loan (cfg\<lparr>validate := \<lambda>l s e. Inr True\<rparr>) loan) = None \<longrightarrow>
      (\<exists>l s e. \<forall>v. ensure_valid_loan (cfg\<lparr>validate := v\<rparr>) loan =
         (case v l s e of
            Inl err \<Rightarrow> (Some err, l)
          | Inr False \<Rightarrow> (Some AssertionError, l)
          | Inr True \<Rightarrow> ensure_valid_loan (cfg\<lparr>validate := \<lambda>l s e. Inr True\<rparr>) loan))) \<and>
   (loan2 ''state'' = Some (VStr ''CREATED'') \<longrightarrow> kw_trigger kw = Some ''checkout'' \<longrightarrow>
    (\<forall>l s e. validate cfg2 l s e = Inr False) \<longrightarrow>
    fst (Circulation_trigger (cfg2\<lparr>validate := \<lambda>l s e. Inr True\<rparr>) current_circulation
       loan2 kw) = None \<longrightarrow>
      fst (Circulation_trigger cfg2 current_circulation loan2 kw) = Some AssertionError \<and>
      \<not> isinstance_TransitionValidationFailed AssertionError \<and>
      snd (Circulation_trigger cfg2 current_circulation loan2 kw) ''state'' =
        Some (VStr ''CREATED'')) \<and>
   ((\<forall>l s e. validate cfg3 l s e \<noteq> Inr False \<and> validate cfg3 l s e \<noteq> Inl AssertionError) \<longrightarrow>
      fst (ensure_valid_loan cfg3 loan3) \<noteq> Some AssertionError) \<and>
   is_loan_valid l0 s0 e0 \<noteq> Inr False \<and> is_loan_valid l0 s0 e0 \<noteq> Inl AssertionError"
  using ensure_valid_loan_one_call [of cfg loan]
    trigger_checkout_falsy [of loan2 kw cfg2]
    ensure_valid_loan_assert_only_on_falsy [of cfg3 loan3]
    is_loan_valid_never_falsy [of l0 s0 e0]
  by simp

theorem assert_guards_validation_policy_witness:
  "(\<exists>l s e. \<forall>v. ensure_valid_loan (test_env item_location_retriever\<lparr>validate := v\<rparr>)
        (update_loan loan_created kw_checkout) =
      (case v l s e of
         Inl err \<Rightarrow> (Some err, l)
       | Inr False \<Rightarrow> (Some AssertionError, l)
       | Inr True \<Rightarrow>
           ensure_valid_loan (test_env item_location_retriever\<lparr>validate := \<lambda>l s e. Inr True\<rparr>)
             (update_loan loan_created kw_checkout))) \<and>
   fst (Circulation_trigger (test_env item_location_retriever\<lparr>validate := validate_false\<rparr>)
     current_circulation loan_created kw_checkout) = Some AssertionError \<and>
   snd (Circulation_trigger (test_env item_location_retriever\<lparr>validate := validate_false\<rparr>)
     current_circulation loan_created kw_checkout) ''state'' = Some (VStr ''CREATED'') \<and>
   fst (ensure_valid_loan (test_env item_location_retriever)
     (update_loan loan_created kw_checkout)) \<noteq> Some AssertionError"
proof -
  have a: "fst (ensure_valid_loan (test_env item_location_retriever\<lparr>validate := \<lambda>l s e. Inr True\<rparr>)
      (update_loan loan_created kw_checkout)) = None"
    by (simp add: kw_checkout_def ensure_valid_loan_def value_defs fixture_defs)
  have b: "loan_created ''state'' = Some (VStr ''CREATED'')"
    by (simp add: loan_created_def)
  have c: "kw_trigger kw_checkout = Some ''checkout''"
    by (simp add: kw_checkout_def)
  have d: "\<forall>l s e. validate (test_env item_location_retriever\<lparr>validate := validate_false\<rparr>) l s e =
      Inr False"
    by (simp add: validate_false_def)
  have e: "fst (Circulation_trigger
      (test_env item_location_retriever\<lparr>validate := validate_false, validate := \<lambda>l s e. Inr True\<rparr>)
      current_circulation loan_created kw_checkout) = None"
  proof -
    obtain r l where rl: "ensure_valid_loan
        (test_env item_location_retriever\<lparr>validate := \<lambda>l s e. Inr True\<rparr>)
        (update_loan loan_created kw_checkout) = (r, l)"
      by (cases "ensure_valid_loan
        (test_env item_location_retriever\<lparr>validate := \<lambda>l s e. Inr True\<rparr>)
        (update_loan loan_created kw_checkout)")
    with a have "r = None" by simp
    with rl b c show ?thesis by (simp add: trigger_checkout)
  qed
  have f: "\<forall>l s e. validate (test_env item_location_retriever) l s e \<noteq> Inr False \<and>
      validate (test_env item_location_retriever) l s e \<noteq> Inl AssertionError"
    by (simp add: test_env_def is_loan_valid_never_falsy)
  from a b c d e f
    assert_guards_validation_policy [of "test_env item_location_retriever" "update_loan loan_created kw_checkout"
      loan_created kw_checkout "test_env item_location_retriever\<lparr>validate := validate_false\<rparr>"
      "test_env item_location_retriever" "update_loan loan_created kw_checkout"]
  show ?thesis by blast
qed

section \<open>The automatic transitions\<close>

lemma update_loan_item_pid: "update_loan loan kw ''item_pid'' = loan ''item_pid''"
  by (simp add: update_loan_def put_opt_def split: option.splits)

lemma update_loan_idem: "update_loan (update_loan loan kw) kw = update_loan loan kw"
  by (rule ext) (simp add: update_loan_def put_opt_def split: option.splits)

lemma trigger_PENDING:
  assumes "loan ''state'' = Some (VStr ''PENDING'')"
  shows "Circulation_trigger cfg current_circulation loan kw =
         try_transitions (execute cfg)
           [\<lparr>cls = PendingToItemAtDesk, src = ''PENDING'', dest = ''ITEM_AT_DESK'',
             trigger = None\<rparr>,
            \<lparr>cls = PendingToItemInTransitPickup, src = ''PENDING'',
             dest = ''ITEM_IN_TRANSIT_FOR_PICKUP'', trigger = None\<rparr>,
            \<lparr>cls = Transition, src = ''PENDING'', dest = ''CANCELLED'',
             trigger = Some ''cancel''\<rparr>] loan kw"
  using assms
  by (simp add: Circulation_trigger_def validate_current_state_def get_def
      current_circulation_eq loan_transitions_def)

text \<open>
  C3 (amended). For a loan in PENDING with \<open>item_pid\<close> set, a \<open>trigger\<close> call
  that names no trigger succeeds, and moves the loan to ITEM_AT_DESK when the location
  retriever returns the pickup location for the item and to ITEM_IN_TRANSIT_FOR_PICKUP
  when it does not. The pickup location is the one of the loan once the context of the
  call is stored in it. The guards of the two automatic candidates are complementary: one
  accepts and the other raises \<open>TransitionConditionsFailed\<close>.
\<close>

theorem pending_automatic_transition:
  assumes "loan ''state'' = Some (VStr ''PENDING'')"
    and "kw_trigger kw = None"
    and "loan ''item_pid'' = Some item_pid"
    and "update_loan loan kw ''pickup_location_pid'' = Some pickup_location_pid"
    and "trigger t = None"
  shows "(\<exists>loan'. Circulation_trigger cfg current_circulation loan kw = (None, loan') \<and>
           loan' ''state'' =
             Some (VStr (if is_same_location cfg item_pid pickup_location_pid
                         then ''ITEM_AT_DESK'' else ''ITEM_IN_TRANSIT_FOR_PICKUP''))) \<and>
         (fst (PendingToItemAtDesk_before cfg t loan kw) =
            (if is_same_location cfg item_pid pickup_location_pid
             then None else Some TransitionConditionsFailed)) \<and>
         (fst (PendingToItemInTransitPickup_before cfg t loan kw) =
            (if is_same_location cfg item_pid pickup_location_pid
             then Some TransitionConditionsFailed else None))"
  using assms
  by (simp add: trigger_PENDING execute_def before_def Transition_before_def
      PendingToItemAtDesk_before_def PendingToItemInTransitPickup_before_def
      Transition_after_def update_loan_item_pid update_loan_idem)

theorem pending_automatic_transition_witness:
  "(\<exists>loan'. Circulation_trigger (test_env (retriever_at ''external_location_pid''))
       current_circulation loan_pending params = (None, loan') \<and>
     loan' ''state'' = Some (VStr ''ITEM_IN_TRANSIT_FOR_PICKUP'')) \<and>
   fst (PendingToItemAtDesk_before (test_env (retriever_at ''external_location_pid''))
     t_at_desk_checkout loan_pending params) = Some TransitionConditionsFailed \<and>
   fst (PendingToItemInTransitPickup_before (test_env (retriever_at ''external_location_pid''))
     t_at_desk_checkout loan_pending params) = None"
proof -
  have a: "loan_pending ''state'' = Some (VStr ''PENDING'')"
    by (simp add: loan_pending_def)
  have b: "kw_trigger params = None"
    by (simp add: params_def)
  have c: "loan_pending ''item_pid'' = Some (VStr ''item_pid'')"
    by (simp add: loan_pending_def)
  have d: "update_loan loan_pending params ''pickup_location_pid'' =
      Some (VStr ''pickup_location_pid'')"
    by (simp add: loan_pending_def params_def update_loan_def put_opt_def)
  have e: "trigger t_at_desk_checkout = None"
    by (simp add: t_at_desk_checkout_def)
  have f: "\<not> is_same_location (test_env (retriever_at ''external_location_pid''))
      (VStr ''item_pid'') (VStr ''pickup_location_pid'')"
    by (simp add: is_same_location_def test_env_def retriever_at_def)
  from pending_automatic_transition [OF a b c d e, of "test_env (retriever_at ''external_location_pid'')"] f
  show ?thesis by simp
qed

text \<open>
  C3 as stated covers every \<open>trigger\<close> call. A call that names the trigger
  \<open>cancel\<close> on a PENDING loan whose item is at the pickup location moves the loan to
  CANCELLED, to neither of the two states.
\<close>

theorem pending_cancel_counterexample:
  "fst (Circulation_trigger (test_env (retriever_at ''pickup_location_pid''))
     current_circulation loan_pending kw_cancel) = None \<and>
   snd (Circulation_trigger (test_env (retriever_at ''pickup_location_pid''))
     current_circulation loan_pending kw_cancel) ''state'' = Some (VStr ''CANCELLED'') \<and>
   is_same_location (test_env (retriever_at ''pickup_location_pid''))
     (VStr ''item_pid'') (VStr ''pickup_location_pid'')"
  by (simp add: trigger_PENDING loan_pending_def kw_cancel_def params_def execute_def
      before_def Transition_before_def PendingToItemAtDesk_before_def
      PendingToItemInTransitPickup_before_def Transition_after_def update_loan_def put_opt_def
      is_same_location_def test_env_def retriever_at_def)


lemma trigger_ITEM_ON_LOAN:
  assumes "loan ''state'' = Some (VStr ''ITEM_ON_LOAN'')"
  shows "Circulation_trigger cfg current_circulation loan kw =
         try_transitions (execute cfg)
           [\<lparr>cls = ItemOnLoanToItemReturned, src = ''ITEM_ON_LOAN'', dest = ''ITEM_RETURNED'',
             trigger = None\<rparr>,
            \<lparr>cls = ItemOnLoanToItemInTransitHouse, src = ''ITEM_ON_LOAN'',
             dest = ''ITEM_IN_TRANSIT_TO_HOUSE'', trigger = None\<rparr>,
            \<lparr>cls = Transition, src = ''ITEM_ON_LOAN'', dest = ''CANCELLED'',
             trigger = Some ''cancel''\<rparr>] loan kw"
  using assms
  by (simp add: Circulation_trigger_def validate_current_state_def get_def
      current_circulation_eq loan_transitions_def)

text \<open>
  C4. For a loan in ITEM_ON_LOAN with \<open>item_pid\<close> set, a check-in (a \<open>trigger\<close>
  call that names no trigger, at a transaction location) succeeds, and moves the loan to
  ITEM_RETURNED when the location retriever returns the transaction location for the item
  and to ITEM_IN_TRANSIT_TO_HOUSE when it does not. In both cases \<open>end_date\<close> is the
  transaction date of the call, which is also the \<open>transaction_date\<close> of the loan.
\<close>

theorem checkin_returned_or_in_transit:
  assumes "loan ''state'' = Some (VStr ''ITEM_ON_LOAN'')"
    and "kw_trigger kw = None"
    and "loan ''item_pid'' = Some item_pid"
    and "update_loan loan kw ''transaction_location_pid'' = Some transaction_location_pid"
  shows "\<exists>loan'. Circulation_trigger cfg current_circulation loan kw = (None, loan') \<and>
           loan' ''state'' =
             Some (VStr (if is_same_location cfg item_pid transaction_location_pid
                         then ''ITEM_RETURNED'' else ''ITEM_IN_TRANSIT_TO_HOUSE'')) \<and>
           loan' ''transaction_date'' = Some (kw_transaction_date kw) \<and>
           loan' ''end_date'' = Some (kw_transaction_date kw)"
  using assms
  by (simp add: trigger_ITEM_ON_LOAN execute_def before_def Transition_before_def
      ItemOnLoanToItemReturned_before_def ItemOnLoanToItemInTransitHouse_before_def
      Transition_after_def update_loan_item_pid update_loan_idem
      update_loan_transaction_date)

theorem checkin_returned_or_in_transit_witness:
  "\<exists>loan'. Circulation_trigger (test_env (retriever_at ''loc_pid'')) current_circulation
       loan_on_loan params = (None, loan') \<and>
     loan' ''state'' = Some (VStr ''ITEM_RETURNED'') \<and>
     loan' ''transaction_date'' = Some (VStr ''2018-02-01T09:30:00+02:00'') \<and>
     loan' ''end_date'' = Some (VStr ''2018-02-01T09:30:00+02:00'')"
proof -
  have a: "loan_on_loan ''state'' = Some (VStr ''ITEM_ON_LOAN'')"
    by (simp add: loan_on_loan_def)
  have b: "kw_trigger params = None"
    by (simp add: params_def)
  have c: "loan_on_loan ''item_pid'' = Some (VStr ''item_pid'')"
    by (simp add: loan_on_loan_def)
  have d: "update_loan loan_on_loan params ''transaction_location_pid'' =
      Some (VStr ''loc_pid'')"
    by (simp add: loan_on_loan_def params_def update_loan_def put_opt_def)
  have f: "is_same_location (test_env (retriever_at ''loc_pid''))
      (VStr ''item_pid'') (VStr ''loc_pid'')"
    by (simp add: is_same_location_def test_env_def retriever_at_def)
  have g: "kw_transaction_date params = VStr ''2018-02-01T09:30:00+02:00''"
    by (simp add: params_def)
  from checkin_returned_or_in_transit [OF a b c d, of "test_env (retriever_at ''loc_pid'')"] f g
  show ?thesis by simp
qed

section \<open>Checkout from ITEM_AT_DESK\<close>

lemma trigger_ITEM_AT_DESK:
  assumes "loan ''state'' = Some (VStr ''ITEM_AT_DESK'')"
  shows "Circulation_trigger cfg current_circulation loan kw =
         try_transitions (execute cfg)
           [t_at_desk_checkout,
            \<lparr>cls = Transition, src = ''ITEM_AT_DESK'', dest = ''CANCELLED'',
             trigger = Some ''cancel''\<rparr>] loan kw"
  using assms
  by (simp add: Circulation_trigger_def validate_current_state_def get_def
      current_circulation_eq loan_transitions_def t_at_desk_checkout_def)

lemma at_desk_never_accepts: "fst (ItemAtDeskToItemOnLoan_before cfg t loan kw) \<noteq> None"
  by (simp add: ItemAtDeskToItemOnLoan_before_def Transition_before_def
      split: sum.splits)

text \<open>
  C7. The checkout from ITEM_AT_DESK does not validate the dates as the checkout from
  CREATED does: \<open>ItemAtDeskToItemOnLoan.before\<close> never accepts, since the name
  \<open>_ensure_valid_loan_duration\<close> that it calls is not defined. On a loan at the desk
  and the context of the test-suite, \<open>trigger\<close> ends with \<open>NameError\<close>, while
  \<open>CreatedToItemOnLoan.before\<close> accepts the same loan and context.
\<close>

theorem at_desk_checkout_raises_NameError:
  "fst (ItemAtDeskToItemOnLoan_before cfg t loan kw) \<noteq> None \<and>
   fst (Circulation_trigger (test_env item_location_retriever) current_circulation
     loan_at_desk params) = Some NameError \<and>
   fst (ItemAtDeskToItemOnLoan_before (test_env item_location_retriever) t_at_desk_checkout
     loan_at_desk params) = Some NameError \<and>
   fst (CreatedToItemOnLoan_before (test_env item_location_retriever) t_at_desk_checkout
     loan_at_desk params) = None"
proof -
  have a: "fst (ItemAtDeskToItemOnLoan_before (test_env item_location_retriever)
      t_at_desk_checkout loan_at_desk params) = Some NameError"
    by (simp add: ItemAtDeskToItemOnLoan_before_def Transition_before_def
        t_at_desk_checkout_def loan_at_desk_def value_defs fixture_defs)
  have b: "fst (Circulation_trigger (test_env item_location_retriever) current_circulation
      loan_at_desk params) = Some NameError"
  proof -
    obtain l where "ItemAtDeskToItemOnLoan_before (test_env item_location_retriever)
        t_at_desk_checkout loan_at_desk params = (Some NameError, l)"
      using a
      by (cases "ItemAtDeskToItemOnLoan_before (test_env item_location_retriever)
        t_at_desk_checkout loan_at_desk params") auto
    then have "execute (test_env item_location_retriever) t_at_desk_checkout loan_at_desk
        params = (Some NameError, l)"
      by (simp add: execute_def before_def t_at_desk_checkout_def)
    moreover have "loan_at_desk ''state'' = Some (VStr ''ITEM_AT_DESK'')"
      by (simp add: loan_at_desk_def)
    ultimately show ?thesis by (simp add: trigger_ITEM_AT_DESK)
  qed
  have c: "fst (CreatedToItemOnLoan_before (test_env item_location_retriever)
      t_at_desk_checkout loan_at_desk params) = None"
    by (simp add: CreatedToItemOnLoan_before_def Transition_before_def ensure_valid_loan_def
        t_at_desk_checkout_def loan_at_desk_def value_defs fixture_defs)
  show ?thesis using a b c at_desk_never_accepts by simp
qed

section \<open>Construction and the configuration\<close>

lemma init_transitions_frame:
  "init_transitions h src_state as = (h', r) \<Longrightarrow>
   length h' = length h \<and>
   (\<forall>a < length h. dest_key (h' ! a) = dest_key (h ! a) \<and>
      trigger_key (h' ! a) = trigger_key (h ! a) \<and>
      (a \<notin> set as \<longrightarrow> h' ! a = h ! a))"
proof (induction as arbitrary: h h' r)
  case Nil
  then show ?case by simp
next
  case (Cons a as)
  show ?case
  proof (cases "length h \<le> a")
    case True
    with Cons.prems show ?thesis by simp
  next
    case False
    define h1 where "h1 = h[a := (h ! a)\<lparr>transition_key := None\<rparr>]"
    have h1: "length h1 = length h"
      "\<forall>b < length h. dest_key (h1 ! b) = dest_key (h ! b) \<and>
         trigger_key (h1 ! b) = trigger_key (h ! b) \<and> (b \<noteq> a \<longrightarrow> h1 ! b = h ! b)"
      using False by (auto simp: h1_def nth_list_update)
    show ?thesis
    proof (cases "Transition_init
        (case transition_key (h ! a) of None \<Rightarrow> Transition | Some k \<Rightarrow> k) (h1 ! a) src_state")
      case (Inl e)
      with False Cons.prems have "h' = h1"
        by (simp add: Let_def h1_def)
      with h1 show ?thesis by auto
    next
      case (Inr inst)
      obtain h2 r2 where rec: "init_transitions h1 src_state as = (h2, r2)"
        by (cases "init_transitions h1 src_state as")
      with False Cons.prems Inr have "h' = h2"
        by (auto simp: Let_def h1_def split: sum.splits)
      with Cons.IH [OF rec] h1 show ?thesis by auto
    qed
  qed
qed

lemma init_items_frame:
  "init_items h transitions c = (h', r) \<Longrightarrow>
   length h' = length h \<and>
   (\<forall>a < length h. dest_key (h' ! a) = dest_key (h ! a) \<and>
      trigger_key (h' ! a) = trigger_key (h ! a) \<and>
      (a \<notin> set (config_refs c) \<longrightarrow> h' ! a = h ! a))"
proof (induction c arbitrary: h transitions h' r)
  case Nil
  then show ?case by simp
next
  case (Cons x c)
  obtain src_state ts where x: "x = (src_state, ts)" by (cases x)
  obtain h1 r1 where first: "init_transitions h src_state ts = (h1, r1)"
    by (cases "init_transitions h src_state ts")
  note f1 = init_transitions_frame [OF first]
  show ?case
  proof (cases r1)
    case (Inl e)
    with Cons.prems x first have "h' = h1" by simp
    with f1 show ?thesis by (auto simp: x config_refs_def)
  next
    case (Inr instances)
    with Cons.prems x first obtain tr where
      rec: "init_items h1 tr c = (h', r)"
      by (auto simp: Let_def)
    from Cons.IH [OF rec] f1 show ?thesis
      by (auto simp: x config_refs_def)
  qed
qed

lemma deepcopy_list_fresh:
  "deepcopy_list h memo as = (h1, memo1, bs) \<Longrightarrow> n \<le> length h \<Longrightarrow>
   \<forall>b \<in> snd ` set memo. n \<le> b \<Longrightarrow>
   take n h1 = take n h \<and> length h \<le> length h1 \<and>
   (\<forall>b \<in> snd ` set memo1. n \<le> b) \<and> (\<forall>b \<in> set bs. n \<le> b)"
proof (induction as arbitrary: h memo h1 memo1 bs)
  case Nil
  then show ?case by simp
next
  case (Cons a as)
  show ?case
  proof (cases "map_of memo a")
    case (Some b)
    obtain h2 memo2 bs2 where rec: "deepcopy_list h memo as = (h2, memo2, bs2)"
      by (cases "deepcopy_list h memo as") auto
    from Some have "b \<in> snd ` set memo"
      by (metis map_of_SomeD image_eqI snd_conv)
    with Cons.prems(3) have "n \<le> b" by blast
    moreover from Cons.prems(1) Some rec have "h1 = h2" "memo1 = memo2" "bs = b # bs2"
      by auto
    ultimately show ?thesis
      using Cons.IH [OF rec Cons.prems(2,3)] by auto
  next
    case None
    obtain h2 memo2 bs2 where
      rec: "deepcopy_list (h @ [h ! a]) ((a, length h) # memo) as = (h2, memo2, bs2)"
      by (cases "deepcopy_list (h @ [h ! a]) ((a, length h) # memo) as") auto
    from Cons.prems(1) None rec have eq: "h1 = h2" "memo1 = memo2" "bs = length h # bs2"
      by auto
    have p2: "n \<le> length (h @ [h ! a])" using Cons.prems(2) by simp
    have p3: "\<forall>b \<in> snd ` set ((a, length h) # memo). n \<le> b"
      using Cons.prems(2,3) by auto
    from Cons.IH [OF rec p2 p3] eq Cons.prems(2) show ?thesis by auto
  qed
qed

lemma deepcopy_items_fresh:
  "deepcopy_items h memo c = (h1, memo1, c1) \<Longrightarrow> n \<le> length h \<Longrightarrow>
   \<forall>b \<in> snd ` set memo. n \<le> b \<Longrightarrow>
   take n h1 = take n h \<and> length h \<le> length h1 \<and>
   (\<forall>b \<in> snd ` set memo1. n \<le> b) \<and> (\<forall>b \<in> set (config_refs c1). n \<le> b) \<and>
   map fst c1 = map fst c"
proof (induction c arbitrary: h memo h1 memo1 c1)
  case Nil
  then show ?case by (simp add: config_refs_def)
next
  case (Cons x c)
  obtain k ts where x: "x = (k, ts)" by (cases x)
  obtain h2 memo2 ts2 where first: "deepcopy_list h memo ts = (h2, memo2, ts2)"
    by (cases "deepcopy_list h memo ts") auto
  obtain h3 memo3 c3 where rec: "deepcopy_items h2 memo2 c = (h3, memo3, c3)"
    by (cases "deepcopy_items h2 memo2 c") auto
  from Cons.prems(1) x first rec have eq: "h1 = h3" "memo1 = memo3" "c1 = (k, ts2) # c3"
    by auto
  note f = deepcopy_list_fresh [OF first Cons.prems(2,3)]
  from f Cons.prems(2) have p2: "n \<le> length h2" by simp
  from f have p3: "\<forall>b \<in> snd ` set memo2. n \<le> b" by simp
  from Cons.IH [OF rec p2 p3] f eq show ?case
    by (auto simp: config_refs_def x)
qed

lemma circulation_frame:
  "take (length h) (fst (InvenioCirculation_circulation h c)) = h"
proof -
  obtain h1 memo1 c1 where dc: "deepcopy_items h [] c = (h1, memo1, c1)"
    by (cases "deepcopy_items h [] c") auto
  from deepcopy_items_fresh [OF dc, of "length h"]
  have f: "take (length h) h1 = h" "length h \<le> length h1"
    "\<forall>b \<in> set (config_refs c1). length h \<le> b"
    by auto
  obtain h2 r where init: "init_items h1 Map.empty c1 = (h2, r)"
    by (cases "init_items h1 Map.empty c1")
  note fr = init_items_frame [OF init]
  from fr have len: "length h2 = length h1" by simp
  have same: "\<forall>a < length h. h2 ! a = h1 ! a"
  proof (intro allI impI)
    fix a assume a: "a < length h"
    with f(3) have "a \<notin> set (config_refs c1)" by auto
    moreover from a f(2) have "a < length h1" by simp
    ultimately show "h2 ! a = h1 ! a" using fr by blast
  qed
  have "take (length h) h2 = take (length h) h1"
    using len same f(2) by (auto intro: nth_equalityI)
  with f(1) dc init show ?thesis
    by (simp add: InvenioCirculation_circulation_def deepcopy_def Circulation_init_def)
qed


lemma init_transitions_popped:
  "init_transitions h src_state as = (h', r) \<Longrightarrow>
   (\<forall>a < length h. transition_key (h ! a) = None \<longrightarrow> transition_key (h' ! a) = None) \<and>
   (\<forall>ts. r = Inr ts \<longrightarrow> (\<forall>a \<in> set as. a < length h \<and> transition_key (h' ! a) = None))"
proof (induction as arbitrary: h h' r)
  case Nil
  then show ?case by simp
next
  case (Cons a as)
  show ?case
  proof (cases "length h \<le> a")
    case True
    with Cons.prems show ?thesis by auto
  next
    case False
    define h1 where "h1 = h[a := (h ! a)\<lparr>transition_key := None\<rparr>]"
    have h1: "length h1 = length h" "transition_key (h1 ! a) = None"
      "\<forall>b < length h. transition_key (h ! b) = None \<longrightarrow> transition_key (h1 ! b) = None"
      using False by (auto simp: h1_def nth_list_update)
    show ?thesis
    proof (cases "Transition_init
        (case transition_key (h ! a) of None \<Rightarrow> Transition | Some k \<Rightarrow> k) (h1 ! a) src_state")
      case (Inl e)
      with False Cons.prems have "h' = h1" "r = Inl e"
        by (simp_all add: Let_def h1_def)
      with h1 show ?thesis by auto
    next
      case (Inr inst)
      obtain h2 r2 where rec: "init_transitions h1 src_state as = (h2, r2)"
        by (cases "init_transitions h1 src_state as")
      with False Cons.prems Inr have eq: "h' = h2"
        "r = (case r2 of Inl e \<Rightarrow> Inl e | Inr insts \<Rightarrow> Inr (inst # insts))"
        by (auto simp: Let_def h1_def split: sum.splits)
      from Cons.IH [OF rec] h1 eq False show ?thesis
        by (auto split: sum.splits)
    qed
  qed
qed

lemma init_items_popped:
  "init_items h transitions c = (h', r) \<Longrightarrow>
   (\<forall>a < length h. transition_key (h ! a) = None \<longrightarrow> transition_key (h' ! a) = None) \<and>
   (\<forall>T. r = Inr T \<longrightarrow>
      (\<forall>a \<in> set (config_refs c). a < length h \<and> transition_key (h' ! a) = None))"
proof (induction c arbitrary: h transitions h' r)
  case Nil
  then show ?case by (simp add: config_refs_def)
next
  case (Cons x c)
  obtain src_state ts where x: "x = (src_state, ts)" by (cases x)
  obtain h1 r1 where first: "init_transitions h src_state ts = (h1, r1)"
    by (cases "init_transitions h src_state ts")
  note p1 = init_transitions_popped [OF first]
  from init_transitions_frame [OF first] have len: "length h1 = length h" by simp
  show ?case
  proof (cases r1)
    case (Inl e)
    with Cons.prems x first have "h' = h1" "r = Inl e" by simp_all
    with p1 show ?thesis by auto
  next
    case (Inr instances)
    with Cons.prems x first obtain tr where
      rec: "init_items h1 tr c = (h', r)"
      by (auto simp: Let_def)
    from Cons.IH [OF rec] p1 len Inr show ?thesis
      by (auto simp: x config_refs_def)
  qed
qed

text \<open>
  C9 (amended). For a configuration whose descriptors are in the heap: building the
  engine through \<open>InvenioCirculation.circulation\<close> leaves every descriptor that was
  in the heap as it was, since the engine is built from a deep copy with fresh
  descriptors. The constructor itself writes to the configuration that it is handed: it
  keeps the heap's size and the \<open>dest\<close> and \<open>trigger\<close> keys of every descriptor,
  leaves alone the descriptors that the configuration does not refer to, and, when it
  succeeds, has removed \<open>transition\<close> from every descriptor of the configuration. An
  engine is a table of transition instances, which hold names and no descriptor.
\<close>

theorem circulation_leaves_app_config_unchanged:
  assumes "wf_config h c"
  shows "take (length h) (fst (InvenioCirculation_circulation h c)) = h \<and>
         length (fst (Circulation_init h c)) = length h \<and>
         (\<forall>a < length h.
            dest_key (fst (Circulation_init h c) ! a) = dest_key (h ! a) \<and>
            trigger_key (fst (Circulation_init h c) ! a) = trigger_key (h ! a) \<and>
            (a \<notin> set (config_refs c) \<longrightarrow> fst (Circulation_init h c) ! a = h ! a)) \<and>
         (\<forall>T. snd (Circulation_init h c) = Inr T \<longrightarrow>
            (\<forall>a \<in> set (config_refs c).
               transition_key (fst (Circulation_init h c) ! a) = None))"
proof -
  obtain h' r where init: "init_items h Map.empty c = (h', r)"
    by (cases "init_items h Map.empty c")
  from init_items_frame [OF init] init_items_popped [OF init] init circulation_frame [of h c]
  show ?thesis by (simp add: Circulation_init_def)
qed

theorem circulation_leaves_app_config_unchanged_witness:
  "take (length CONFIG_HEAP)
     (fst (InvenioCirculation_circulation CONFIG_HEAP CIRCULATION_LOAN_TRANSITIONS)) =
     CONFIG_HEAP \<and>
   length (fst (Circulation_init CONFIG_HEAP CIRCULATION_LOAN_TRANSITIONS)) =
     length CONFIG_HEAP \<and>
   dest_key (fst (Circulation_init CONFIG_HEAP CIRCULATION_LOAN_TRANSITIONS) ! 0) =
     dest_key (CONFIG_HEAP ! 0) \<and>
   trigger_key (fst (Circulation_init CONFIG_HEAP CIRCULATION_LOAN_TRANSITIONS) ! 0) =
     trigger_key (CONFIG_HEAP ! 0) \<and>
   transition_key (fst (Circulation_init CONFIG_HEAP CIRCULATION_LOAN_TRANSITIONS) ! 0) = None"
proof -
  have wf: "wf_config CONFIG_HEAP CIRCULATION_LOAN_TRANSITIONS"
    by (simp add: wf_config_def config_refs_def CIRCULATION_LOAN_TRANSITIONS_def CONFIG_HEAP_def)
  have a: "0 < length CONFIG_HEAP"
    by (simp add: CONFIG_HEAP_def)
  have b: "0 \<in> set (config_refs CIRCULATION_LOAN_TRANSITIONS)"
    by (simp add: config_refs_def CIRCULATION_LOAN_TRANSITIONS_def)
  have c: "\<exists>T. snd (Circulation_init CONFIG_HEAP CIRCULATION_LOAN_TRANSITIONS) = Inr T"
    by (simp add: Circulation_init_def CIRCULATION_LOAN_TRANSITIONS_def CONFIG_HEAP_def
        edge_def Transition_init_def STATES_def Let_def)
  from circulation_leaves_app_config_unchanged [OF wf] a b c show ?thesis by blast
qed

text \<open>
  C9 as stated says that building a \<open>_Circulation\<close> from a configuration leaves it
  unchanged, the descriptors keeping all their keys. Built from the default
  configuration itself, the first descriptor loses its \<open>transition\<close> key.
\<close>

theorem init_pops_transition_counterexample:
  "keys (CONFIG_HEAP ! 0) = [''dest'', ''trigger'', ''transition''] \<and>
   keys (fst (Circulation_init CONFIG_HEAP CIRCULATION_LOAN_TRANSITIONS) ! 0) =
     [''dest'', ''trigger'']"
  by (simp add: Circulation_init_def CIRCULATION_LOAN_TRANSITIONS_def CONFIG_HEAP_def edge_def
      Transition_init_def STATES_def Let_def keys_def)

section \<open>Availability of an item\<close>

lemma terminal_states_eq: "terminal_states = [''ITEM_RETURNED'', ''CANCELLED'']"
  by (simp add: terminal_states_def CIRCULATION_LOAN_TRANSITIONS_def)

lemma terminal_state_iff:
  "(case v of VStr s \<Rightarrow> s \<notin> set terminal_states | _ \<Rightarrow> True) \<longleftrightarrow>
   v \<notin> {VStr ''ITEM_RETURNED'', VStr ''CANCELLED''}"
  by (cases v) (auto simp: terminal_states_eq)

lemma unavailable_state_iff:
  "(case v of VStr s \<Rightarrow> s \<notin> set CIRCULATION_STATES_ITEM_AVAILABLE | _ \<Rightarrow> True) \<longleftrightarrow>
   v \<noteq> VStr ''ITEM_RETURNED''"
  by (cases v) (auto simp: CIRCULATION_STATES_ITEM_AVAILABLE_def)

lemma api_is_item_available_iff:
  "api_is_item_available loans item_pid \<longleftrightarrow>
   \<not> (\<exists>l \<in> set loans. py_eq (get l ''item_pid'') item_pid \<and>
          get l ''state'' \<notin> {VStr ''ITEM_RETURNED'', VStr ''CANCELLED''})"
  by (auto simp: api_is_item_available_def get_loans_def filter_empty_conv
      terminal_state_iff unavailable_state_iff)

text \<open>
  C8. An item is unavailable when some loan on it is in PENDING, ITEM_ON_LOAN,
  ITEM_IN_TRANSIT_FOR_PICKUP or ITEM_AT_DESK; it is available when every loan on it is in
  ITEM_RETURNED or CANCELLED, and when it has no loan at all; and it is unavailable
  exactly when at least one loan on it is in a non-terminal state. The predicate is the
  one of \<open>api.py\<close>, modelled from the specification; the terminal states are those
  without outgoing transitions in the table of \<open>config.py\<close>.
\<close>

theorem item_unavailable_iff_non_terminal_loan:
  "(l \<in> set loans \<longrightarrow> py_eq (get l ''item_pid'') item_pid \<longrightarrow>
    get l ''state'' \<in> {VStr ''PENDING'', VStr ''ITEM_ON_LOAN'',
      VStr ''ITEM_IN_TRANSIT_FOR_PICKUP'', VStr ''ITEM_AT_DESK''} \<longrightarrow>
      \<not> api_is_item_available loans item_pid) \<and>
   ((\<forall>l \<in> set loans2. py_eq (get l ''item_pid'') item_pid2 \<longrightarrow>
       get l ''state'' \<in> {VStr ''ITEM_RETURNED'', VStr ''CANCELLED''}) \<longrightarrow>
      api_is_item_available loans2 item_pid2) \<and>
   api_is_item_available [] item_pid \<and>
   (\<not> api_is_item_available loans item_pid \<longleftrightarrow>
      (\<exists>l \<in> set loans. py_eq (get l ''item_pid'') item_pid \<and>
         get l ''state'' \<notin> {VStr ''ITEM_RETURNED'', VStr ''CANCELLED''}))"
  unfolding api_is_item_available_iff
  by auto

theorem item_unavailable_iff_non_terminal_loan_witness:
  "\<not> api_is_item_available [loan_returned, loan_pending] (VStr ''item_pid'') \<and>
   api_is_item_available [loan_returned, loan_cancelled, loan_pending] (VStr ''item_cancelled'') \<and>
   api_is_item_available [loan_returned, loan_cancelled, loan_pending] (VStr ''item_returned_3'') \<and>
   api_is_item_available [] (VStr ''item_pid'')"
proof -
  have a: "loan_pending \<in> set [loan_returned, loan_pending]" by simp
  have b: "py_eq (get loan_pending ''item_pid'') (VStr ''item_pid'')"
    by (simp add: loan_pending_def get_def)
  have c: "get loan_pending ''state'' \<in> {VStr ''PENDING'', VStr ''ITEM_ON_LOAN'',
      VStr ''ITEM_IN_TRANSIT_FOR_PICKUP'', VStr ''ITEM_AT_DESK''}"
    by (simp add: loan_pending_def get_def)
  have d: "\<forall>l \<in> set [loan_returned, loan_cancelled, loan_pending].
      py_eq (get l ''item_pid'') (VStr ''item_cancelled'') \<longrightarrow>
      get l ''state'' \<in> {VStr ''ITEM_RETURNED'', VStr ''CANCELLED''}"
    by (simp add: loan_returned_def loan_cancelled_def loan_pending_def get_def)
  have e: "\<forall>l \<in> set [loan_returned, loan_cancelled, loan_pending].
      py_eq (get l ''item_pid'') (VStr ''item_returned_3'') \<longrightarrow>
      get l ''state'' \<in> {VStr ''ITEM_RETURNED'', VStr ''CANCELLED''}"
    by (simp add: loan_returned_def loan_cancelled_def loan_pending_def get_def)
  from a b c d e
    item_unavailable_iff_non_terminal_loan [of loan_pending "[loan_returned, loan_pending]" "VStr ''item_pid''"
       "[loan_returned, loan_cancelled, loan_pending]" "VStr ''item_cancelled''"]
    item_unavailable_iff_non_terminal_loan [of loan_pending "[loan_returned, loan_pending]" "VStr ''item_pid''"
       "[loan_returned, loan_cancelled, loan_pending]" "VStr ''item_returned_3''"]
  show ?thesis by blast
qed

end
